theory Spec2Isabelle
  imports Complex_Main "HOL-Library.Sublist" "HOL-Library.AList"
begin

chapter \<open>Provider adapters, stream parsers and the provider registry\<close>

text \<open>
  A shallow embedding of the provider layer of the plugin: the registry of
  core/provider.ts and the five adapters of core/providers, each with its \<^verbatim>\<open>validate\<close>,
  \<^verbatim>\<open>chat\<close>, \<^verbatim>\<open>chatStream\<close> and the generator that turns the body of a streaming response
  into token deltas. What is outside the source is a parameter: \<^verbatim>\<open>JSON.parse\<close> is any
  function from text to a value or an error, and the network is any function from a
  request to a reply or an error. An exception is a value: a function that may throw
  returns a sum, with the error on the left.
\<close>

section \<open>JavaScript strings\<close>

text \<open>
  A JavaScript string is a sequence of code units. The model writes a string as a
  \<^typ>\<open>string\<close> and so covers the code units below 256; every delimiter the adapters
  look for (newline, \<^verbatim>\<open>data: \<close>, \<^verbatim>\<open>[DONE]\<close>, the think tags, \<^verbatim>\<open>/v1\<close>) is ASCII.
  The functions below are the String.prototype methods the adapters call.
\<close>

fun startsWith :: "string \<Rightarrow> string \<Rightarrow> bool" where
  "startsWith s [] = True"
| "startsWith [] (p # ps) = False"
| "startsWith (c # cs) (p # ps) = (c = p \<and> startsWith cs ps)"

definition endsWith :: "string \<Rightarrow> string \<Rightarrow> bool" where
  "endsWith s p = startsWith (rev s) (rev p)"

fun str_includes :: "string \<Rightarrow> string \<Rightarrow> bool" where
  "str_includes [] p = (p = [])"
| "str_includes (c # cs) p = (startsWith (c # cs) p \<or> str_includes cs p)"

text \<open>\<^verbatim>\<open>s.slice(n)\<close> for a non-negative \<open>n\<close>: the string without its first \<open>n\<close> code units.\<close>

definition slice :: "nat \<Rightarrow> string \<Rightarrow> string" where
  "slice n s = drop n s"

text \<open>
  \<^verbatim>\<open>s.split(sep)\<close> for a one-character separator: the pieces between the separators, so
  one piece more than there are separators; the empty string splits into one empty piece.
\<close>

fun split_on :: "char \<Rightarrow> string \<Rightarrow> string list" where
  "split_on sep [] = [[]]"
| "split_on sep (c # cs) =
     (if c = sep then [] # split_on sep cs
      else (case split_on sep cs of [] \<Rightarrow> [[c]] | l # ls \<Rightarrow> (c # l) # ls))"

text \<open>
  \<^verbatim>\<open>Array.prototype.pop\<close>: the last element and the array without it, \<^verbatim>\<open>undefined\<close>
  (here \<open>None\<close>) on an empty array.
\<close>

definition pop :: "'a list \<Rightarrow> 'a option \<times> 'a list" where
  "pop xs = (if xs = [] then (None, []) else (Some (last xs), butlast xs))"

text \<open>\<^verbatim>\<open>x || ''\<close> for \<open>x\<close> a string or \<^verbatim>\<open>undefined\<close>.\<close>

definition or_empty_string :: "string option \<Rightarrow> string" where
  "or_empty_string x = (case x of None \<Rightarrow> [] | Some s \<Rightarrow> s)"

text \<open>
  The code units below 256 that \<^verbatim>\<open>String.prototype.trim\<close> removes: tab, line feed,
  vertical tab, form feed, carriage return, space and the no-break space.
\<close>

definition js_whitespace :: "char \<Rightarrow> bool" where
  "js_whitespace c \<longleftrightarrow>
     c = CHR 0x09 \<or> c = CHR 0x0A \<or> c = CHR 0x0B \<or> c = CHR 0x0C \<or> c = CHR 0x0D
     \<or> c = CHR 0x20 \<or> c = CHR 0xA0"

definition trim :: "string \<Rightarrow> string" where
  "trim s = rev (dropWhile js_whitespace (rev (dropWhile js_whitespace s)))"

text \<open>
  \<^verbatim>\<open>s.replace(/P[\s\S]*$/, '')\<close> for a literal \<open>P\<close>: the leftmost match starts at the
  first occurrence of \<open>P\<close> and runs to the end, so what is left is the text before that
  occurrence; a string without \<open>P\<close> is unchanged.
\<close>

fun before_first :: "string \<Rightarrow> string \<Rightarrow> string" where
  "before_first p [] = []"
| "before_first p (c # cs) = (if startsWith (c # cs) p then [] else c # before_first p cs)"

text \<open>
  \<^verbatim>\<open>s.replace(/^[\s\S]*P/, '')\<close> for a literal \<open>P\<close>: the star is greedy, so the match
  runs from the start through the last occurrence of \<open>P\<close> and what is left is the text
  after that occurrence; a string without \<open>P\<close> is unchanged.
\<close>

fun after_last :: "string \<Rightarrow> string \<Rightarrow> string" where
  "after_last p [] = []"
| "after_last p (c # cs) =
     (if str_includes cs p then after_last p cs
      else if startsWith (c # cs) p then drop (length p) (c # cs)
      else c # cs)"

text \<open>Decimal digits of a number, as a template literal prints a status code.\<close>

fun nat_to_string :: "nat \<Rightarrow> string" where
  "nat_to_string n =
     (if n < 10 then [char_of (48 + n)]
      else nat_to_string (n div 10) @ [char_of (48 + n mod 10)])"

declare nat_to_string.simps [simp del]

section \<open>JavaScript values and errors\<close>

text \<open>
  The values \<^verbatim>\<open>JSON.parse\<close> produces. \<^verbatim>\<open>undefined\<close> is not among them: an expression
  that may be \<^verbatim>\<open>undefined\<close> has an option type, with \<open>None\<close> for
  \<^verbatim>\<open>undefined\<close>. An object is the list of its members in the order of the text.
\<close>

datatype json =
    JNull
  | JBool bool
  | JNum real
  | JStr string
  | JArr "json list"
  | JObj "(string \<times> json) list"

text \<open>
  An Error object: its name, its message and, for the errors of the host's
  \<^verbatim>\<open>requestUrl\<close>, the HTTP status it carries.
\<close>

record js_error =
  err_name :: string
  err_message :: string
  err_status :: "nat option"

text \<open>The TypeError of reading a property of \<^verbatim>\<open>null\<close> or of calling what is no function.\<close>

definition type_error :: js_error where
  "type_error = \<lparr>err_name = ''TypeError'', err_message = ''not an object or not a function'',
     err_status = None\<rparr>"

text \<open>\<^verbatim>\<open>Error.prototype.toString\<close>, which is what \<^verbatim>\<open>String(e)\<close> calls on an Error.\<close>

definition error_toString :: "js_error \<Rightarrow> string" where
  "error_toString e =
     (if err_name e = [] then err_message e
      else if err_message e = [] then err_name e
      else err_name e @ '': '' @ err_message e)"

text \<open>
  \<^verbatim>\<open>JSON.parse\<close> is the runtime's: the adapters are modelled over any function from
  the text to the parsed value or the SyntaxError thrown.
\<close>

type_synonym json_parser = "string \<Rightarrow> js_error + json"

text \<open>Truthiness, as \<^verbatim>\<open>if (x)\<close>, \<^verbatim>\<open>x || y\<close> and \<^verbatim>\<open>!x\<close> test it.\<close>

fun truthy :: "json \<Rightarrow> bool" where
  "truthy JNull = False"
| "truthy (JBool b) = b"
| "truthy (JNum x) = (x \<noteq> 0)"
| "truthy (JStr s) = (s \<noteq> [])"
| "truthy (JArr xs) = True"
| "truthy (JObj kvs) = True"

definition truthy_opt :: "json option \<Rightarrow> bool" where
  "truthy_opt v = (case v of None \<Rightarrow> False | Some j \<Rightarrow> truthy j)"

text \<open>
  \<^verbatim>\<open>v.name\<close> on a value that is neither \<^verbatim>\<open>null\<close> nor \<^verbatim>\<open>undefined\<close>, for the member
  names the adapters read (none of them is a property of a prototype): the member of an
  object, where a later duplicate key has replaced an earlier one, and \<^verbatim>\<open>undefined\<close>
  on a number, a boolean, a string or an array.
\<close>

fun own_prop :: "json \<Rightarrow> string \<Rightarrow> json option" where
  "own_prop (JObj kvs) name = map_of (rev kvs) name"
| "own_prop v name = None"

text \<open>\<^verbatim>\<open>v[0]\<close> on a value that is neither \<^verbatim>\<open>null\<close> nor \<^verbatim>\<open>undefined\<close>.\<close>

fun index0 :: "json \<Rightarrow> json option" where
  "index0 (JArr []) = None"
| "index0 (JArr (x # xs)) = Some x"
| "index0 (JStr []) = None"
| "index0 (JStr (c # cs)) = Some (JStr [c])"
| "index0 (JObj kvs) = map_of (rev kvs) ''0''"
| "index0 v = None"

text \<open>\<^verbatim>\<open>v.name\<close>: a TypeError on \<^verbatim>\<open>null\<close>.\<close>

definition get_prop :: "json \<Rightarrow> string \<Rightarrow> js_error + json option" where
  "get_prop v name = (if v = JNull then Inl type_error else Inr (own_prop v name))"

text \<open>\<^verbatim>\<open>v[0]\<close>: a TypeError on \<^verbatim>\<open>null\<close>.\<close>

definition at0 :: "json \<Rightarrow> js_error + json option" where
  "at0 v = (if v = JNull then Inl type_error else Inr (index0 v))"

text \<open>\<^verbatim>\<open>v?.name\<close> and \<^verbatim>\<open>v?.[0]\<close>: \<^verbatim>\<open>undefined\<close> when \<open>v\<close> is \<^verbatim>\<open>null\<close> or \<^verbatim>\<open>undefined\<close>.\<close>

definition opt_prop :: "json option \<Rightarrow> string \<Rightarrow> json option" where
  "opt_prop v name =
     (case v of None \<Rightarrow> None | Some j \<Rightarrow> if j = JNull then None else own_prop j name)"

definition opt_at0 :: "json option \<Rightarrow> json option" where
  "opt_at0 v = (case v of None \<Rightarrow> None | Some j \<Rightarrow> if j = JNull then None else index0 j)"

text \<open>\<^verbatim>\<open>v || ''\<close>.\<close>

definition or_empty :: "json option \<Rightarrow> json" where
  "or_empty v = (case v of None \<Rightarrow> JStr [] | Some j \<Rightarrow> if truthy j then j else JStr [])"

text \<open>
  \<^verbatim>\<open>content.includes(s)\<close> on a parsed value: the substring test on a string, the
  element test on an array, and a TypeError on everything else, which has no such method.
\<close>

fun value_includes :: "json \<Rightarrow> string \<Rightarrow> js_error + bool" where
  "value_includes (JStr s) p = Inr (str_includes s p)"
| "value_includes (JArr xs) p = Inr (List.member xs (JStr p))"
| "value_includes v p = Inl type_error"

text \<open>
  \<^verbatim>\<open>content.replace(...)\<close> on a parsed value with a given effect on strings: only a
  string has the method.
\<close>

fun value_replace :: "(string \<Rightarrow> string) \<Rightarrow> json \<Rightarrow> js_error + json" where
  "value_replace f (JStr s) = Inr (JStr (f s))"
| "value_replace f v = Inl type_error"

section \<open>Stream parsers\<close>

text \<open>
  \<^verbatim>\<open>interface TokenDelta { content: string; done: boolean }\<close>. The declared type of
  \<open>content\<close> is not checked when the program runs: the field holds the value the parsed
  chunk carried, which is a string when the provider keeps to its protocol.
\<close>

record token_delta =
  delta_content :: json
  delta_done :: bool

text \<open>\<^verbatim>\<open>yield { content: '', done: true }\<close>\<close>

definition terminal :: token_delta where
  "terminal = \<lparr>delta_content = JStr [], delta_done = True\<rparr>"

text \<open>
  What one pass through the body of \<^verbatim>\<open>for (const line of lines)\<close> does: it goes on to
  the next line without a delta, it yields one delta and goes on, or it yields the
  terminal delta and returns from the generator.
\<close>

datatype line_result = Continue | Yield token_delta | Return_done

text \<open>
  The \<^verbatim>\<open>for\<close> loop over the complete lines of one read. The body may carry state from
  line to line. The result is the deltas yielded, the state after the loop and whether
  the generator has returned.
\<close>

fun for_lines ::
  "('s \<Rightarrow> string \<Rightarrow> 's \<times> line_result) \<Rightarrow> 's \<Rightarrow> string list \<Rightarrow> token_delta list \<times> 's \<times> bool"
where
  "for_lines body st [] = ([], st, False)"
| "for_lines body st (line # lines) =
     (case body st line of
        (st', Continue) \<Rightarrow> for_lines body st' lines
      | (st', Yield d) \<Rightarrow>
          (case for_lines body st' lines of (ds, st'', returned) \<Rightarrow> (d # ds, st'', returned))
      | (st', Return_done) \<Rightarrow> ([terminal], st', True))"

text \<open>
  The \<^verbatim>\<open>while (true)\<close> loop that all five generators share, over the chunks the reader
  delivers before it reports the end of the body, each already decoded to text:
  \<^verbatim>\<open>
    const { done, value } = await reader.read();
    if (done) break;
    buffer += decoder.decode(value, { stream: true });
    const lines = buffer.split('\n');
    buffer = lines.pop() || '';
    for (const line of lines) { ... }
  \<close>
  and, after the loop, \<^verbatim>\<open>yield { content: '', done: true }\<close>. What is left in the buffer
  when the body ends is never parsed.
\<close>

fun read_loop ::
  "('s \<Rightarrow> string \<Rightarrow> 's \<times> line_result) \<Rightarrow> 's \<Rightarrow> string \<Rightarrow> string list \<Rightarrow> token_delta list"
where
  "read_loop body st buffer [] = [terminal]"
| "read_loop body st buffer (chunk # reads) =
     (case pop (split_on CHR 0x0A (buffer @ chunk)) of
        (popped, lines) \<Rightarrow>
          (case for_lines body st lines of
             (ds, st', returned) \<Rightarrow>
               if returned then ds else ds @ read_loop body st' (or_empty_string popped) reads))"

subsection \<open>OpenRouter: parseSSEStream\<close>

definition parseSSEStream_line :: "json_parser \<Rightarrow> string \<Rightarrow> line_result" where
  "parseSSEStream_line parse line =
     (if startsWith line ''data: '' then
        let data = slice 6 line in
        if data = ''[DONE]'' then Return_done
        else
          (case parse data of
             Inl e \<Rightarrow> Continue
           | Inr parsed \<Rightarrow>
               (case get_prop parsed ''choices'' of
                  Inl e \<Rightarrow> Continue
                | Inr choices \<Rightarrow>
                    let delta = or_empty (opt_prop (opt_prop (opt_at0 choices) ''delta'') ''content'')
                    in if truthy delta then Yield \<lparr>delta_content = delta, delta_done = False\<rparr>
                       else Continue))
      else Continue)"

definition parseSSEStream :: "json_parser \<Rightarrow> string list \<Rightarrow> token_delta list" where
  "parseSSEStream parse body =
     read_loop (\<lambda>st line. (st, parseSSEStream_line parse line)) () [] body"

subsection \<open>OpenAI-compatible: parseStream\<close>

definition parseStream_line :: "json_parser \<Rightarrow> string \<Rightarrow> line_result" where
  "parseStream_line parse line =
     (if startsWith line ''data: '' then
        let data = trim (slice 6 line) in
        if data = ''[DONE]'' then Return_done
        else
          (case parse data of
             Inl e \<Rightarrow> Continue
           | Inr parsed \<Rightarrow>
               (case get_prop parsed ''choices'' of
                  Inl e \<Rightarrow> Continue
                | Inr choices \<Rightarrow>
                    let delta = opt_prop (opt_at0 choices) ''delta'';
                        content = or_empty (opt_prop delta ''content'')
                    in if truthy content then Yield \<lparr>delta_content = content, delta_done = False\<rparr>
                       else Continue))
      else Continue)"

definition parseStream :: "json_parser \<Rightarrow> string list \<Rightarrow> token_delta list" where
  "parseStream parse body =
     read_loop (\<lambda>st line. (st, parseStream_line parse line)) () [] body"

subsection \<open>MiniMax: parseMinimaxStream\<close>

text \<open>
  The three \<^verbatim>\<open>if\<close>s under \<^verbatim>\<open>if (!this.showThinking)\<close>, from the flag
  \<^verbatim>\<open>inThinkBlock\<close> and the content to the new flag and what becomes of the chunk: an
  exception (the flag keeps the value it had when the exception was thrown), the
  \<^verbatim>\<open>continue\<close>, or the content that goes on to \<^verbatim>\<open>if (content)\<close>.
\<close>

datatype filter_result = Threw js_error | Suppressed | Passed json

definition think_close :: "bool \<Rightarrow> json \<Rightarrow> bool \<times> filter_result" where
  "think_close inThinkBlock content =
     (if inThinkBlock then
        (case value_includes content ''</think>'' of
           Inl e \<Rightarrow> (inThinkBlock, Threw e)
         | Inr True \<Rightarrow>
             (case value_replace (after_last ''</think>'') content of
                Inl e \<Rightarrow> (False, Threw e)
              | Inr content' \<Rightarrow> (False, Passed content'))
         | Inr False \<Rightarrow> (True, Suppressed))
      else (False, Passed content))"

definition think_filter :: "bool \<Rightarrow> json \<Rightarrow> bool \<times> filter_result" where
  "think_filter inThinkBlock content =
     (case value_includes content ''<think>'' of
        Inl e \<Rightarrow> (inThinkBlock, Threw e)
      | Inr True \<Rightarrow>
          (case value_replace (before_first ''<think>'') content of
             Inl e \<Rightarrow> (True, Threw e)
           | Inr content' \<Rightarrow> think_close True content')
      | Inr False \<Rightarrow> think_close inThinkBlock content)"

definition parseMinimaxStream_line ::
  "json_parser \<Rightarrow> bool \<Rightarrow> bool \<Rightarrow> string \<Rightarrow> bool \<times> line_result"
where
  "parseMinimaxStream_line parse showThinking inThinkBlock line =
     (if startsWith line ''data: '' then
        let data = trim (slice 6 line) in
        if data = ''[DONE]'' then (inThinkBlock, Return_done)
        else
          (case parse data of
             Inl e \<Rightarrow> (inThinkBlock, Continue)
           | Inr parsed \<Rightarrow>
               (case get_prop parsed ''choices'' of
                  Inl e \<Rightarrow> (inThinkBlock, Continue)
                | Inr choices \<Rightarrow>
                    let content = or_empty (opt_prop (opt_prop (opt_at0 choices) ''delta'') ''content'')
                    in if \<not> showThinking then
                         (case think_filter inThinkBlock content of
                            (b, Threw e) \<Rightarrow> (b, Continue)
                          | (b, Suppressed) \<Rightarrow> (b, Continue)
                          | (b, Passed content') \<Rightarrow>
                              (b, if truthy content'
                                  then Yield \<lparr>delta_content = content', delta_done = False\<rparr>
                                  else Continue))
                       else
                         (inThinkBlock,
                          if truthy content then Yield \<lparr>delta_content = content, delta_done = False\<rparr>
                          else Continue)))
      else (inThinkBlock, Continue))"

definition parseMinimaxStream :: "json_parser \<Rightarrow> bool \<Rightarrow> string list \<Rightarrow> token_delta list" where
  "parseMinimaxStream parse showThinking body =
     read_loop (parseMinimaxStream_line parse showThinking) False [] body"

subsection \<open>Ollama: parseOllamaStream\<close>

definition parseOllamaStream_line :: "json_parser \<Rightarrow> string \<Rightarrow> line_result" where
  "parseOllamaStream_line parse line =
     (if trim line = [] then Continue
      else
        (case parse line of
           Inl e \<Rightarrow> Continue
         | Inr parsed \<Rightarrow>
             (case get_prop parsed ''done'' of
                Inl e \<Rightarrow> Continue
              | Inr d \<Rightarrow>
                  if truthy_opt d then Return_done
                  else Yield \<lparr>delta_content = or_empty (opt_prop (own_prop parsed ''message'') ''content''),
                              delta_done = False\<rparr>)))"

definition parseOllamaStream :: "json_parser \<Rightarrow> string list \<Rightarrow> token_delta list" where
  "parseOllamaStream parse body =
     read_loop (\<lambda>st line. (st, parseOllamaStream_line parse line)) () [] body"

subsection \<open>Google AI: parseGeminiStream\<close>

definition parseGeminiStream_line :: "json_parser \<Rightarrow> string \<Rightarrow> line_result" where
  "parseGeminiStream_line parse line =
     (if startsWith line ''data: '' then
        (case parse (slice 6 line) of
           Inl e \<Rightarrow> Continue
         | Inr parsed \<Rightarrow>
             (case get_prop parsed ''candidates'' of
                Inl e \<Rightarrow> Continue
              | Inr candidates \<Rightarrow>
                  let text = or_empty (opt_prop (opt_at0 (opt_prop (opt_prop (opt_at0 candidates)
                               ''content'') ''parts'')) ''text'')
                  in if truthy text then Yield \<lparr>delta_content = text, delta_done = False\<rparr>
                     else Continue))
      else Continue)"

definition parseGeminiStream :: "json_parser \<Rightarrow> string list \<Rightarrow> token_delta list" where
  "parseGeminiStream parse body =
     read_loop (\<lambda>st line. (st, parseGeminiStream_line parse line)) () [] body"

subsection \<open>What the stream contract asks of a sequence of deltas\<close>

text \<open>Exactly one delta has \<^verbatim>\<open>done=true\<close>, and it is the last one and the terminal one.\<close>

definition ends_with_one_terminal :: "token_delta list \<Rightarrow> bool" where
  "ends_with_one_terminal ds \<longleftrightarrow>
     length (filter delta_done ds) = 1 \<and> ds \<noteq> [] \<and> last ds = terminal"

text \<open>A text after which a new line starts: it is empty or ends with a newline.\<close>

definition at_line_start :: "string \<Rightarrow> bool" where
  "at_line_start pre \<longleftrightarrow> pre = [] \<or> last pre = CHR 0x0A"

section \<open>A JSON reader for the wire examples\<close>

text \<open>
  A reader for the part of JSON that the wire examples below are written in: objects,
  arrays, strings with the two-character escapes, integers, \<^verbatim>\<open>true\<close>, \<^verbatim>\<open>false\<close> and
  \<^verbatim>\<open>null\<close>, with white space between the tokens. It rejects the rest of JSON
  (fractions, exponents, \<^verbatim>\<open>\u\<close> escapes). It serves to run the adapters on concrete
  text, where \<^verbatim>\<open>JSON.parse\<close> stands in the source: the general theorems are about
  every parser.
\<close>

definition syntax_error :: js_error where
  "syntax_error = \<lparr>err_name = ''SyntaxError'', err_message = ''Unexpected token in JSON'',
     err_status = None\<rparr>"

definition json_space :: "char \<Rightarrow> bool" where
  "json_space c \<longleftrightarrow> c = CHR 0x20 \<or> c = CHR 0x09 \<or> c = CHR 0x0A \<or> c = CHR 0x0D"

definition skip_ws :: "string \<Rightarrow> string" where
  "skip_ws s = dropWhile json_space s"

definition unescape :: "char \<Rightarrow> char option" where
  "unescape e =
     (if e = CHR 0x22 then Some (CHR 0x22)
      else if e = CHR 0x5C then Some (CHR 0x5C)
      else if e = CHR ''/'' then Some (CHR ''/'')
      else if e = CHR ''b'' then Some (CHR 0x08)
      else if e = CHR ''f'' then Some (CHR 0x0C)
      else if e = CHR ''n'' then Some (CHR 0x0A)
      else if e = CHR ''r'' then Some (CHR 0x0D)
      else if e = CHR ''t'' then Some (CHR 0x09)
      else None)"

text \<open>The characters of a string after its opening quote, and the text after its closing quote.\<close>

fun read_chars :: "string \<Rightarrow> (string \<times> string) option" where
  "read_chars [] = None"
| "read_chars [c] = (if c = CHR 0x22 then Some ([], []) else None)"
| "read_chars (c # e # cs) =
     (if c = CHR 0x22 then Some ([], e # cs)
      else if c = CHR 0x5C then
        (case unescape e of
           None \<Rightarrow> None
         | Some d \<Rightarrow> (case read_chars cs of None \<Rightarrow> None | Some (s, r) \<Rightarrow> Some (d # s, r)))
      else if (of_char c :: nat) < 32 then None
      else (case read_chars (e # cs) of None \<Rightarrow> None | Some (s, r) \<Rightarrow> Some (c # s, r)))"

definition is_digit :: "char \<Rightarrow> bool" where
  "is_digit c \<longleftrightarrow> 48 \<le> (of_char c :: nat) \<and> (of_char c :: nat) \<le> 57"

definition digits_value :: "string \<Rightarrow> nat" where
  "digits_value ds = foldl (\<lambda>a d. 10 * a + (of_char d - 48)) 0 ds"

text \<open>An integer: an optional minus sign and digits without a leading zero.\<close>

definition read_number :: "string \<Rightarrow> (json \<times> string) option" where
  "read_number s =
     (let neg = startsWith s ''-'';
          t = (if neg then drop 1 s else s);
          ds = takeWhile is_digit t;
          r = dropWhile is_digit t
      in if ds = [] \<or> (length ds > 1 \<and> hd ds = CHR ''0'') then None
         else if startsWith r ''.'' \<or> startsWith r ''e'' \<or> startsWith r ''E'' then None
         else Some (JNum (if neg then - real (digits_value ds) else real (digits_value ds)), r))"

fun read_value :: "nat \<Rightarrow> string \<Rightarrow> (json \<times> string) option"
  and read_elements :: "nat \<Rightarrow> string \<Rightarrow> (json list \<times> string) option"
  and read_members :: "nat \<Rightarrow> string \<Rightarrow> ((string \<times> json) list \<times> string) option"
where
  "read_value 0 s = None"
| "read_value (Suc n) s =
     (let t = skip_ws s in
      if startsWith t ''null'' then Some (JNull, drop 4 t)
      else if startsWith t ''true'' then Some (JBool True, drop 4 t)
      else if startsWith t ''false'' then Some (JBool False, drop 5 t)
      else
        (case t of
           [] \<Rightarrow> None
         | c # r \<Rightarrow>
             if c = CHR 0x22 then
               (case read_chars r of None \<Rightarrow> None | Some (str, r') \<Rightarrow> Some (JStr str, r'))
             else if c = CHR ''['' then
               (if startsWith (skip_ws r) '']'' then Some (JArr [], drop 1 (skip_ws r))
                else (case read_elements n r of
                        None \<Rightarrow> None
                      | Some (vs, r') \<Rightarrow> Some (JArr vs, r')))
             else if c = CHR ''{'' then
               (if startsWith (skip_ws r) ''}'' then Some (JObj [], drop 1 (skip_ws r))
                else (case read_members n r of
                        None \<Rightarrow> None
                      | Some (kvs, r') \<Rightarrow> Some (JObj kvs, r')))
             else read_number t))"
| "read_elements 0 s = None"
| "read_elements (Suc n) s =
     (case read_value n s of
        None \<Rightarrow> None
      | Some (v, r) \<Rightarrow>
          (case skip_ws r of
             [] \<Rightarrow> None
           | c # r' \<Rightarrow>
               if c = CHR '','' then
                 (case read_elements n r' of
                    None \<Rightarrow> None
                  | Some (vs, r'') \<Rightarrow> Some (v # vs, r''))
               else if c = CHR '']'' then Some ([v], r')
               else None))"
| "read_members 0 s = None"
| "read_members (Suc n) s =
     (case skip_ws s of
        [] \<Rightarrow> None
      | c # r \<Rightarrow>
          if c = CHR 0x22 then
            (case read_chars r of
               None \<Rightarrow> None
             | Some (k, r1) \<Rightarrow>
                 (case skip_ws r1 of
                    [] \<Rightarrow> None
                  | c1 # r2 \<Rightarrow>
                      if c1 = CHR '':'' then
                        (case read_value n r2 of
                           None \<Rightarrow> None
                         | Some (v, r3) \<Rightarrow>
                             (case skip_ws r3 of
                                [] \<Rightarrow> None
                              | c3 # r4 \<Rightarrow>
                                  if c3 = CHR '','' then
                                    (case read_members n r4 of
                                       None \<Rightarrow> None
                                     | Some (kvs, r5) \<Rightarrow> Some ((k, v) # kvs, r5))
                                  else if c3 = CHR ''}'' then Some ([(k, v)], r4)
                                  else None))
                      else None))
          else None)"

text \<open>The fuel bounds the depth of the calls; a text that needs more is rejected.\<close>

definition json_parse :: json_parser where
  "json_parse s =
     (case read_value (2 * length s + 2) s of
        None \<Rightarrow> Inl syntax_error
      | Some (v, r) \<Rightarrow> if skip_ws r = [] then Inr v else Inl syntax_error)"

section \<open>Provider registry (core/provider.ts)\<close>

text \<open>
  The part of the \<^verbatim>\<open>LLMProvider\<close> interface the registry reads: the two readonly
  fields. An adapter's own configuration lives in the extension part of the record.
\<close>

record llm_provider =
  provider_id :: string
  provider_name :: string

text \<open>
  \<^verbatim>\<open>private providers: Map<string, LLMProvider> = new Map()\<close>. A JavaScript Map keeps
  its entries in insertion order and \<^verbatim>\<open>set\<close> on a key that is present replaces the
  value where it stands, which is what \<^const>\<open>AList.update\<close> does on an
  association list.
\<close>

type_synonym 'a provider_registry = "(string \<times> 'a llm_provider_scheme) list"

definition new_registry :: "'a provider_registry" where
  "new_registry = []"

definition register :: "'a llm_provider_scheme \<Rightarrow> 'a provider_registry \<Rightarrow> 'a provider_registry" where
  "register provider providers = AList.update (provider_id provider) provider providers"

definition get :: "'a provider_registry \<Rightarrow> string \<Rightarrow> 'a llm_provider_scheme option" where
  "get providers ident = map_of providers ident"

definition list_providers :: "'a provider_registry \<Rightarrow> 'a llm_provider_scheme list" where
  "list_providers providers = map snd providers"

definition clear :: "'a provider_registry \<Rightarrow> 'a provider_registry" where
  "clear providers = []"

text \<open>
  What every registry built from \<^const>\<open>new_registry\<close> by \<^const>\<open>register\<close> and
  \<^const>\<open>clear\<close> satisfies: one entry per key, each filed under its own identifier.
\<close>

definition registry_inv :: "'a provider_registry \<Rightarrow> bool" where
  "registry_inv providers \<longleftrightarrow>
     distinct (map fst providers) \<and> list_all (\<lambda>(k, p). k = provider_id p) providers"

section \<open>Requests and responses\<close>

text \<open>\<^verbatim>\<open>interface ChatMessage\<close> and \<^verbatim>\<open>interface ChatRequest\<close> of core/provider.ts.\<close>

datatype chat_role = System | User | Assistant

record chat_message =
  message_role :: chat_role
  message_content :: string

record chat_request =
  request_model :: string
  request_messages :: "chat_message list"
  request_maxTokens :: "real option"
  request_temperature :: "real option"
  request_stream :: "bool option"

text \<open>
  \<^verbatim>\<open>interface ChatResponse { text: string; usage?: { promptTokens; completionTokens } }\<close>.
  As with the deltas, the fields hold what the response body carried, \<^verbatim>\<open>undefined\<close>
  included.
\<close>

record usage_counts =
  promptTokens :: "json option"
  completionTokens :: "json option"

record chat_response =
  response_text :: "json option"
  response_usage :: "usage_counts option"

text \<open>The result of \<^verbatim>\<open>validate()\<close>: \<^verbatim>\<open>{ valid: boolean; error?: string }\<close>.\<close>

record validation =
  valid :: bool
  error :: "json option"

text \<open>
  What an adapter sends: the URL, the method, the headers in the order they are set, and
  the value handed to \<^verbatim>\<open>JSON.stringify\<close> for the body (a member whose value is
  \<^verbatim>\<open>undefined\<close> is left out, as \<^verbatim>\<open>JSON.stringify\<close> leaves it out).
\<close>

record http_request =
  http_url :: string
  http_method :: string
  http_headers :: "(string \<times> string) list"
  http_body :: "json option"

text \<open>
  What comes back: the status line and the body as the chunks in which it is read, or no
  body at all. \<^verbatim>\<open>fetch\<close> hands the adapter the body as a stream of these chunks;
  the host's \<^verbatim>\<open>requestUrl\<close> hands it their concatenation as \<^verbatim>\<open>text\<close>.
\<close>

record http_reply =
  reply_status :: nat
  reply_statusText :: string
  reply_body :: "string list option"

text \<open>
  The network, as the adapters see it: every request is answered by a reply or fails with
  an error (no connection, no response).
\<close>

type_synonym network = "http_request \<Rightarrow> js_error + http_reply"

text \<open>\<^verbatim>\<open>response.ok\<close> of the Fetch API: the status is in the range 200 to 299.\<close>

definition reply_ok :: "http_reply \<Rightarrow> bool" where
  "reply_ok r \<longleftrightarrow> 200 \<le> reply_status r \<and> reply_status r \<le> 299"

text \<open>\<^verbatim>\<open>response.text()\<close> and \<^verbatim>\<open>resp.text\<close>: the whole body.\<close>

definition reply_text :: "http_reply \<Rightarrow> string" where
  "reply_text r = (case reply_body r of None \<Rightarrow> [] | Some chunks \<Rightarrow> concat chunks)"

text \<open>\<^verbatim>\<open>resp.json\<close> of the host's response: the body parsed when the member is read.\<close>

definition reply_json :: "json_parser \<Rightarrow> http_reply \<Rightarrow> js_error + json" where
  "reply_json parse r = parse (reply_text r)"

text \<open>
  The error with which the host's \<^verbatim>\<open>requestUrl\<close> rejects a status of 400 and above: an
  Error that carries the status.
\<close>

definition status_error :: "nat \<Rightarrow> js_error" where
  "status_error n = \<lparr>err_name = ''Error'',
     err_message = ''Request failed, status '' @ nat_to_string n, err_status = Some n\<rparr>"

text \<open>
  The host's \<^verbatim>\<open>requestUrl(request)\<close>, by its declaration in the host's API: it rejects
  when the network fails, and, unless the request says \<^verbatim>\<open>throw: false\<close>, when the status
  is 400 or above.
\<close>

definition requestUrl :: "network \<Rightarrow> bool \<Rightarrow> http_request \<Rightarrow> js_error + http_reply" where
  "requestUrl net throw request =
     (case net request of
        Inl e \<Rightarrow> Inl e
      | Inr r \<Rightarrow> if throw \<and> 400 \<le> reply_status r then Inl (status_error (reply_status r))
                else Inr r)"

text \<open>\<^verbatim>\<open>fetch(url, init)\<close>: rejects only when the network fails.\<close>

definition fetch :: "network \<Rightarrow> http_request \<Rightarrow> js_error + http_reply" where
  "fetch net request = net request"

text \<open>
  What \<^verbatim>\<open>chat\<close> and \<^verbatim>\<open>chatStream\<close> throw: an error object that reached them (from the
  network, from \<^verbatim>\<open>JSON.parse\<close>, from reading a property of \<^verbatim>\<open>null\<close>), or a
  \<^verbatim>\<open>new Error(...)\<close> of their own, whose message is kept as the parts of its template:
  literal text, the string conversion of a parsed value, or its \<^verbatim>\<open>JSON.stringify\<close>.
\<close>

datatype message_part = Lit string | Val json | Stringified json

datatype exn = Host js_error | Raised "message_part list"

text \<open>Sequencing of steps that may throw.\<close>

definition and_then :: "'e + 'a \<Rightarrow> ('a \<Rightarrow> 'e + 'b) \<Rightarrow> 'e + 'b" where
  "and_then m f = (case m of Inl e \<Rightarrow> Inl e | Inr x \<Rightarrow> f x)"

text \<open>\<^verbatim>\<open>try { body } catch (e) { handler }\<close>\<close>

definition try_catch :: "'e + 'a \<Rightarrow> ('e \<Rightarrow> 'f + 'a) \<Rightarrow> 'f + 'a" where
  "try_catch body handler = (case body of Inl e \<Rightarrow> handler e | Inr x \<Rightarrow> Inr x)"

text \<open>An error object on its way out of \<^verbatim>\<open>chat\<close> or \<^verbatim>\<open>chatStream\<close>.\<close>

definition host :: "js_error + 'a \<Rightarrow> exn + 'a" where
  "host m = (case m of Inl e \<Rightarrow> Inl (Host e) | Inr x \<Rightarrow> Inr x)"

text \<open>
  \<^verbatim>\<open>v.name\<close> and \<^verbatim>\<open>v[0]\<close> where \<open>v\<close> may be \<^verbatim>\<open>undefined\<close>: a TypeError on
  \<^verbatim>\<open>undefined\<close> and on \<^verbatim>\<open>null\<close>.
\<close>

definition strict_prop :: "json option \<Rightarrow> string \<Rightarrow> js_error + json option" where
  "strict_prop v name = (case v of None \<Rightarrow> Inl type_error | Some j \<Rightarrow> get_prop j name)"

definition strict_at0 :: "json option \<Rightarrow> js_error + json option" where
  "strict_at0 v = (case v of None \<Rightarrow> Inl type_error | Some j \<Rightarrow> at0 j)"

text \<open>\<^verbatim>\<open>String(e.message || e)\<close> for an error object \<open>e\<close>.\<close>

definition message_or_string :: "js_error \<Rightarrow> string" where
  "message_or_string e = (if err_message e \<noteq> [] then err_message e else error_toString e)"

text \<open>The members of an object literal, without those whose value is \<^verbatim>\<open>undefined\<close>.\<close>

definition object_of :: "(string \<times> json option) list \<Rightarrow> json" where
  "object_of members =
     JObj (concat (map (\<lambda>(k, v). case v of None \<Rightarrow> [] | Some j \<Rightarrow> [(k, j)]) members))"

definition role_name :: "chat_role \<Rightarrow> string" where
  "role_name r = (case r of System \<Rightarrow> ''system'' | User \<Rightarrow> ''user'' | Assistant \<Rightarrow> ''assistant'')"

text \<open>\<^verbatim>\<open>request.messages\<close> as it goes into the body.\<close>

definition messages_json :: "chat_message list \<Rightarrow> json" where
  "messages_json ms =
     JArr (map (\<lambda>m. JObj [(''role'', JStr (role_name (message_role m))),
                            (''content'', JStr (message_content m))]) ms)"

text \<open>
  \<^verbatim>\<open>data.usage ? { promptTokens: data.usage.prompt_tokens, completionTokens:
  data.usage.completion_tokens } : undefined\<close>, for \<open>data\<close> that is not \<^verbatim>\<open>null\<close>.
\<close>

definition openai_usage :: "json \<Rightarrow> usage_counts option" where
  "openai_usage data =
     (case own_prop data ''usage'' of
        None \<Rightarrow> None
      | Some u \<Rightarrow>
          if truthy u
          then Some \<lparr>promptTokens = own_prop u ''prompt_tokens'',
                     completionTokens = own_prop u ''completion_tokens''\<rparr>
          else None)"

text \<open>\<^verbatim>\<open>v || d\<close> for \<open>v\<close> that may be \<^verbatim>\<open>undefined\<close>.\<close>

definition or_else :: "json option \<Rightarrow> json \<Rightarrow> json" where
  "or_else v d = (case v of None \<Rightarrow> d | Some j \<Rightarrow> if truthy j then j else d)"

text \<open>A network that answers every request with the same reply.\<close>

definition answering :: "http_reply \<Rightarrow> network" where
  "answering r request = Inr r"

section \<open>OpenAI-compatible adapter (core/providers/openai-compatible.ts)\<close>

record openai_compatible_provider = llm_provider +
  compat_baseUrl :: string
  compat_apiKey :: string
  compat_modelId :: string

text \<open>\<^verbatim>\<open>baseUrl.replace(/\/+$/, '')\<close>: the string without the slashes at its end.\<close>

definition strip_trailing_slashes :: "string \<Rightarrow> string" where
  "strip_trailing_slashes s = rev (dropWhile (\<lambda>c. c = CHR ''/'') (rev s))"

definition new_OpenAICompatibleProvider ::
  "string \<Rightarrow> string \<Rightarrow> string \<Rightarrow> openai_compatible_provider"
where
  "new_OpenAICompatibleProvider baseUrl apiKey modelId =
     (let url = strip_trailing_slashes baseUrl;
          url' =
            (if \<not> str_includes url ''/chat/completions'' then
               (if endsWith url ''/v1'' then url @ ''/chat/completions''
                else if \<not> endsWith url ''/completions'' then url @ ''/v1/chat/completions''
                else url)
             else url)
      in \<lparr>provider_id = ''openai-compatible'', provider_name = ''OpenAI Compatible'',
          compat_baseUrl = url', compat_apiKey = apiKey, compat_modelId = modelId\<rparr>)"

text \<open>The headers: the Authorization header only when a key is configured.\<close>

definition compat_headers :: "openai_compatible_provider \<Rightarrow> (string \<times> string) list" where
  "compat_headers p =
     (''Content-Type'', ''application/json'') #
     (if compat_apiKey p \<noteq> [] then [(''Authorization'', ''Bearer '' @ compat_apiKey p)] else [])"

definition compat_validate_request :: "openai_compatible_provider \<Rightarrow> http_request" where
  "compat_validate_request p =
     \<lparr>http_url = compat_baseUrl p, http_method = ''POST'', http_headers = compat_headers p,
      http_body = Some (JObj
        [(''model'', JStr (compat_modelId p)),
         (''messages'', JArr [JObj [(''role'', JStr ''user''), (''content'', JStr ''hi'')]]),
         (''max_tokens'', JNum 5),
         (''stream'', JBool False)])\<rparr>"

text \<open>The request of \<^verbatim>\<open>chat\<close> (\<open>stream\<close> false) and of \<^verbatim>\<open>chatStream\<close> (\<open>stream\<close> true).\<close>

definition compat_chat_request ::
  "openai_compatible_provider \<Rightarrow> chat_request \<Rightarrow> bool \<Rightarrow> http_request"
where
  "compat_chat_request p request stream =
     \<lparr>http_url = compat_baseUrl p, http_method = ''POST'', http_headers = compat_headers p,
      http_body = Some (JObj
        [(''model'', JStr (if request_model request \<noteq> [] then request_model request
                           else compat_modelId p)),
         (''messages'', messages_json (request_messages request)),
         (''max_tokens'', JNum (case request_maxTokens request of
                                  None \<Rightarrow> 2000 | Some n \<Rightarrow> if n \<noteq> 0 then n else 2000)),
         (''temperature'', JNum (case request_temperature request of
                                   None \<Rightarrow> 7 / 10 | Some t \<Rightarrow> t)),
         (''stream'', JBool stream)])\<rparr>"

text \<open>
  \<^verbatim>\<open>try { const json = JSON.parse(resp.text);
  errorMsg = json.error?.message || json.message || errorMsg; } catch {}\<close>
\<close>

definition compat_error_message :: "json_parser \<Rightarrow> http_reply \<Rightarrow> json" where
  "compat_error_message parse resp =
     (let errorMsg = JStr (''HTTP '' @ nat_to_string (reply_status resp)) in
      case parse (reply_text resp) of
        Inl e \<Rightarrow> errorMsg
      | Inr json \<Rightarrow>
          (case get_prop json ''error'' of
             Inl e \<Rightarrow> errorMsg
           | Inr err \<Rightarrow>
               or_else (opt_prop err ''message'') (or_else (own_prop json ''message'') errorMsg)))"

definition compat_validate ::
  "json_parser \<Rightarrow> network \<Rightarrow> openai_compatible_provider \<Rightarrow> js_error + validation"
where
  "compat_validate parse net p =
     (if compat_baseUrl p = [] then
        Inr \<lparr>valid = False, error = Some (JStr ''Base URL is required'')\<rparr>
      else if compat_modelId p = [] then
        Inr \<lparr>valid = False, error = Some (JStr ''Model ID is required'')\<rparr>
      else
        try_catch
          (and_then (requestUrl net False (compat_validate_request p)) (\<lambda>resp.
             if reply_status resp = 200 then Inr \<lparr>valid = True, error = None\<rparr>
             else Inr \<lparr>valid = False, error = Some (compat_error_message parse resp)\<rparr>))
          (\<lambda>e. Inr \<lparr>valid = False, error = Some (JStr (message_or_string e))\<rparr>))"

definition compat_chat ::
  "json_parser \<Rightarrow> network \<Rightarrow> openai_compatible_provider \<Rightarrow> chat_request \<Rightarrow> exn + chat_response"
where
  "compat_chat parse net p request =
     and_then (host (requestUrl net True (compat_chat_request p request False))) (\<lambda>resp.
     and_then (host (reply_json parse resp)) (\<lambda>data.
     and_then (host (get_prop data ''error'')) (\<lambda>err.
       case err of
         Some e \<Rightarrow>
           if truthy e then
             Inl (Raised [case own_prop e ''message'' of
                            None \<Rightarrow> Stringified e
                          | Some m \<Rightarrow> if truthy m then Val m else Stringified e])
           else
             Inr \<lparr>response_text = Some (or_empty (opt_prop (opt_prop (opt_at0
                      (own_prop data ''choices'')) ''message'') ''content'')),
                  response_usage = openai_usage data\<rparr>
       | None \<Rightarrow>
           Inr \<lparr>response_text = Some (or_empty (opt_prop (opt_prop (opt_at0
                    (own_prop data ''choices'')) ''message'') ''content'')),
                response_usage = openai_usage data\<rparr>)))"

text \<open>
  The message of the error that \<^verbatim>\<open>chatStream\<close> throws on a status outside 200 to 299:
  \<^verbatim>\<open>json.error?.message || `HTTP ${response.status}`\<close>, the latter also when the body
  does not parse.
\<close>

definition stream_error_message :: "json_parser \<Rightarrow> http_reply \<Rightarrow> message_part" where
  "stream_error_message parse response =
     (let errorMsg = Lit (''HTTP '' @ nat_to_string (reply_status response)) in
      case parse (reply_text response) of
        Inl e \<Rightarrow> errorMsg
      | Inr json \<Rightarrow>
          (case get_prop json ''error'' of
             Inl e \<Rightarrow> errorMsg
           | Inr err \<Rightarrow>
               (case opt_prop err ''message'' of
                  None \<Rightarrow> errorMsg
                | Some m \<Rightarrow> if truthy m then Val m else errorMsg)))"

definition compat_chatStream ::
  "json_parser \<Rightarrow> network \<Rightarrow> openai_compatible_provider \<Rightarrow> chat_request
     \<Rightarrow> exn + token_delta list"
where
  "compat_chatStream parse net p request =
     and_then (host (fetch net (compat_chat_request p request True))) (\<lambda>response.
       if \<not> reply_ok response then Inl (Raised [stream_error_message parse response])
       else
         (case reply_body response of
            None \<Rightarrow> Inl (Raised [Lit ''No response body''])
          | Some chunks \<Rightarrow> Inr (parseStream parse chunks)))"

section \<open>OpenRouter adapter (core/providers/openrouter.ts)\<close>

record openrouter_provider = llm_provider +
  openrouter_apiKey :: string
  openrouter_siteUrl :: "string option"

definition new_OpenRouterProvider :: "string \<Rightarrow> string option \<Rightarrow> openrouter_provider" where
  "new_OpenRouterProvider apiKey siteUrl =
     \<lparr>provider_id = ''openrouter'', provider_name = ''OpenRouter'',
      openrouter_apiKey = apiKey, openrouter_siteUrl = siteUrl\<rparr>"



definition openrouter_chat_request ::
  "openrouter_provider \<Rightarrow> chat_request \<Rightarrow> bool \<Rightarrow> http_request"
where
  "openrouter_chat_request p request stream =
     \<lparr>http_url = ''https://openrouter.ai/api/v1/chat/completions'', http_method = ''POST'',
      http_headers =
        [(''Authorization'', ''Bearer '' @ openrouter_apiKey p),
         (''Content-Type'', ''application/json''),
         (''HTTP-Referer'', (case openrouter_siteUrl p of
                                None \<Rightarrow> ''https://obsidian.md''
                              | Some u \<Rightarrow> if u \<noteq> [] then u else ''https://obsidian.md'')),
         (''X-Title'', ''Obsidian Vault AI'')],
      http_body = Some (object_of
        [(''model'', Some (JStr (request_model request))),
         (''messages'', Some (messages_json (request_messages request))),
         (''max_tokens'', map_option JNum (request_maxTokens request)),
         (''temperature'', map_option JNum (request_temperature request)),
         (''stream'', Some (JBool stream))])\<rparr>"

text \<open>\<^verbatim>\<open>data.choices[0].message.content\<close>: every step but the last throws on what is missing.\<close>

definition first_choice_content :: "json \<Rightarrow> js_error + json option" where
  "first_choice_content data =
     and_then (get_prop data ''choices'') (\<lambda>choices.
     and_then (strict_at0 choices) (\<lambda>choice.
     and_then (strict_prop choice ''message'') (\<lambda>message.
       strict_prop message ''content'')))"

definition openrouter_chat ::
  "json_parser \<Rightarrow> network \<Rightarrow> openrouter_provider \<Rightarrow> chat_request \<Rightarrow> exn + chat_response"
where
  "openrouter_chat parse net p request =
     and_then (host (requestUrl net True (openrouter_chat_request p request False))) (\<lambda>resp.
     and_then (host (reply_json parse resp)) (\<lambda>data.
     and_then (host (first_choice_content data)) (\<lambda>content.
       Inr \<lparr>response_text = content, response_usage = openai_usage data\<rparr>)))"

definition openrouter_chatStream ::
  "json_parser \<Rightarrow> network \<Rightarrow> openrouter_provider \<Rightarrow> chat_request \<Rightarrow> exn + token_delta list"
where
  "openrouter_chatStream parse net p request =
     and_then (host (fetch net (openrouter_chat_request p request True))) (\<lambda>response.
       case reply_body response of
         None \<Rightarrow> Inl (Raised [Lit ''No response body for streaming''])
       | Some chunks \<Rightarrow> Inr (parseSSEStream parse chunks))"

section \<open>MiniMax adapter (core/providers/minimax.ts)\<close>

datatype region = International | China

record minimax_provider = llm_provider +
  minimax_apiKey :: string
  minimax_baseUrl :: string
  minimax_showThinking :: bool

text \<open>
  The constructor; an argument left out (\<open>None\<close>) takes its default, the international
  region and \<^verbatim>\<open>showThinking = false\<close>.
\<close>

definition new_MinimaxProvider ::
  "string \<Rightarrow> region option \<Rightarrow> bool option \<Rightarrow> minimax_provider"
where
  "new_MinimaxProvider apiKey region showThinking =
     \<lparr>provider_id = ''minimax'', provider_name = ''MiniMax'',
      minimax_apiKey = apiKey,
      minimax_baseUrl =
        (if (case region of None \<Rightarrow> International | Some r \<Rightarrow> r) = China
         then ''https://api.minimaxi.com/v1''
         else ''https://api.minimax.io/v1''),
      minimax_showThinking = (case showThinking of None \<Rightarrow> False | Some b \<Rightarrow> b)\<rparr>"

definition minimax_headers :: "minimax_provider \<Rightarrow> (string \<times> string) list" where
  "minimax_headers p =
     [(''Authorization'', ''Bearer '' @ minimax_apiKey p), (''Content-Type'', ''application/json'')]"



definition minimax_chat_request :: "minimax_provider \<Rightarrow> chat_request \<Rightarrow> bool \<Rightarrow> http_request" where
  "minimax_chat_request p request stream =
     \<lparr>http_url = minimax_baseUrl p @ ''/chat/completions'', http_method = ''POST'',
      http_headers = minimax_headers p,
      http_body = Some (object_of
        [(''model'', Some (JStr (request_model request))),
         (''messages'', Some (messages_json (request_messages request))),
         (''stream'', Some (JBool stream)),
         (''max_tokens'', (case request_maxTokens request of
                             None \<Rightarrow> None
                           | Some n \<Rightarrow> if n \<noteq> 0 then Some (JNum n) else None)),
         (''temperature'', Some (JNum (case request_temperature request of
                                         None \<Rightarrow> 1 | Some t \<Rightarrow> t)))])\<rparr>"

text \<open>
  \<^verbatim>\<open>content.replace(/<think>[\s\S]*?<\/think>/g, '')\<close>: from left to right, an opening
  tag with a closing tag somewhere after it is removed together with everything up to
  the first such closing tag. The first argument counts the characters of a match that
  are still to be removed.
\<close>

fun remove_think_blocks :: "nat \<Rightarrow> string \<Rightarrow> string" where
  "remove_think_blocks n [] = []"
| "remove_think_blocks (Suc n) (c # cs) = remove_think_blocks n cs"
| "remove_think_blocks 0 (c # cs) =
     (if startsWith (c # cs) ''<think>'' \<and> str_includes (drop 7 (c # cs)) ''</think>''
      then remove_think_blocks (6 + length (before_first ''</think>'' (drop 7 (c # cs))) + 8) cs
      else c # remove_think_blocks 0 cs)"

definition stripThinkingBlocks :: "json option \<Rightarrow> js_error + json option" where
  "stripThinkingBlocks content =
     (case content of
        Some (JStr s) \<Rightarrow> Inr (Some (JStr (trim (remove_think_blocks 0 s))))
      | _ \<Rightarrow> Inl type_error)"

definition minimax_chat ::
  "json_parser \<Rightarrow> network \<Rightarrow> minimax_provider \<Rightarrow> chat_request \<Rightarrow> exn + chat_response"
where
  "minimax_chat parse net p request =
     and_then (host (requestUrl net True (minimax_chat_request p request False))) (\<lambda>resp.
     and_then (host (reply_json parse resp)) (\<lambda>data.
     and_then (host (first_choice_content data)) (\<lambda>content.
     and_then (host (if \<not> minimax_showThinking p then stripThinkingBlocks content
                     else Inr content)) (\<lambda>content'.
       Inr \<lparr>response_text = content', response_usage = openai_usage data\<rparr>))))"

definition minimax_chatStream ::
  "json_parser \<Rightarrow> network \<Rightarrow> minimax_provider \<Rightarrow> chat_request \<Rightarrow> exn + token_delta list"
where
  "minimax_chatStream parse net p request =
     and_then (host (fetch net (minimax_chat_request p request True))) (\<lambda>response.
       if \<not> reply_ok response then
         Inl (Raised [Lit (''MiniMax API error: '' @ nat_to_string (reply_status response)
                           @ '' '' @ reply_statusText response)])
       else
         (case reply_body response of
            None \<Rightarrow> Inl (Raised [Lit ''No response body for streaming''])
          | Some chunks \<Rightarrow> Inr (parseMinimaxStream parse (minimax_showThinking p) chunks)))"

section \<open>Ollama adapter (core/providers/ollama.ts)\<close>

record ollama_provider = llm_provider +
  ollama_baseUrl :: string

text \<open>The constructor; a base URL left out (\<open>None\<close>) is the local default.\<close>

definition new_OllamaProvider :: "string option \<Rightarrow> ollama_provider" where
  "new_OllamaProvider baseUrl =
     \<lparr>provider_id = ''ollama'', provider_name = ''Ollama (Local)'',
      ollama_baseUrl = (case baseUrl of None \<Rightarrow> ''http://localhost:11434'' | Some u \<Rightarrow> u)\<rparr>"



definition ollama_chat_request :: "ollama_provider \<Rightarrow> chat_request \<Rightarrow> bool \<Rightarrow> http_request" where
  "ollama_chat_request p request stream =
     \<lparr>http_url = ollama_baseUrl p @ ''/api/chat'', http_method = ''POST'',
      http_headers = [(''Content-Type'', ''application/json'')],
      http_body = Some (JObj
        [(''model'', JStr (request_model request)),
         (''messages'', messages_json (request_messages request)),
         (''stream'', JBool stream),
         (''options'', object_of
            [(''num_predict'', map_option JNum (request_maxTokens request)),
             (''temperature'', map_option JNum (request_temperature request))])])\<rparr>"

definition ollama_chat ::
  "json_parser \<Rightarrow> network \<Rightarrow> ollama_provider \<Rightarrow> chat_request \<Rightarrow> exn + chat_response"
where
  "ollama_chat parse net p request =
     and_then (host (requestUrl net True (ollama_chat_request p request False))) (\<lambda>resp.
     and_then (host (reply_json parse resp)) (\<lambda>data.
     and_then (host (get_prop data ''message'')) (\<lambda>message.
     and_then (host (strict_prop message ''content'')) (\<lambda>content.
       Inr \<lparr>response_text = content,
            response_usage =
              (case own_prop data ''eval_count'' of
                 None \<Rightarrow> None
               | Some n \<Rightarrow>
                   if truthy n
                   then Some \<lparr>promptTokens = Some (or_else (own_prop data ''prompt_eval_count'')
                                                     (JNum 0)),
                              completionTokens = Some n\<rparr>
                   else None)\<rparr>))))"

definition ollama_chatStream ::
  "json_parser \<Rightarrow> network \<Rightarrow> ollama_provider \<Rightarrow> chat_request \<Rightarrow> exn + token_delta list"
where
  "ollama_chatStream parse net p request =
     and_then (host (fetch net (ollama_chat_request p request True))) (\<lambda>response.
       case reply_body response of
         None \<Rightarrow> Inl (Raised [Lit ''No response body''])
       | Some chunks \<Rightarrow> Inr (parseOllamaStream parse chunks))"

section \<open>Google AI adapter (core/providers/google-ai.ts)\<close>

record google_provider = llm_provider +
  google_apiKey :: string

definition new_GoogleAIProvider :: "string \<Rightarrow> google_provider" where
  "new_GoogleAIProvider apiKey =
     \<lparr>provider_id = ''google-ai'', provider_name = ''Google AI (Gemini)'', google_apiKey = apiKey\<rparr>"

definition google_baseUrl :: string where
  "google_baseUrl = ''https://generativelanguage.googleapis.com/v1beta''"

text \<open>
  The first loop of \<^verbatim>\<open>convertMessages\<close>: the system messages are gathered into
  \<^verbatim>\<open>systemContent\<close>, the others are pushed to \<^verbatim>\<open>contents\<close> with their Gemini role. An
  entry of \<^verbatim>\<open>contents\<close> is written as the pair of its role and the text of its one part.
\<close>

fun convert_loop ::
  "chat_message list \<Rightarrow> (string \<times> string) list \<Rightarrow> string \<Rightarrow> (string \<times> string) list \<times> string"
where
  "convert_loop [] contents systemContent = (contents, systemContent)"
| "convert_loop (msg # rest) contents systemContent =
     (if message_role msg = System
      then convert_loop rest contents (systemContent @ message_content msg @ [CHR 0x0A, CHR 0x0A])
      else convert_loop rest
             (contents @ [(if message_role msg = Assistant then ''model'' else ''user'',
                           message_content msg)])
             systemContent)"

text \<open>The second loop: the system content goes in front of the first user entry, if there is one.\<close>

fun prepend_to_first_user :: "string \<Rightarrow> (string \<times> string) list \<Rightarrow> (string \<times> string) list" where
  "prepend_to_first_user systemContent [] = []"
| "prepend_to_first_user systemContent ((r, t) # rest) =
     (if r = ''user'' then (r, systemContent @ t) # rest
      else (r, t) # prepend_to_first_user systemContent rest)"

definition convertMessages :: "chat_message list \<Rightarrow> json" where
  "convertMessages messages =
     (case convert_loop messages [] [] of
        (contents, systemContent) \<Rightarrow>
          let contents1 =
                (if systemContent \<noteq> [] \<and> contents \<noteq> []
                 then prepend_to_first_user systemContent contents else contents);
              contents2 =
                (if contents1 = []
                 then [(''user'', if systemContent \<noteq> [] then systemContent else ''Hello'')]
                 else contents1)
          in JArr (map (\<lambda>(r, t). JObj [(''role'', JStr r),
                                         (''parts'', JArr [JObj [(''text'', JStr t)]])])
                    contents2))"


definition google_generation_body :: "chat_request \<Rightarrow> json" where
  "google_generation_body request =
     JObj [(''contents'', convertMessages (request_messages request)),
           (''generationConfig'', JObj
              [(''maxOutputTokens'', JNum (case request_maxTokens request of
                                             None \<Rightarrow> 2000
                                           | Some n \<Rightarrow> if n \<noteq> 0 then n else 2000)),
               (''temperature'', JNum (case request_temperature request of
                                         None \<Rightarrow> 7 / 10 | Some t \<Rightarrow> t))])]"

definition google_chat_request :: "google_provider \<Rightarrow> chat_request \<Rightarrow> http_request" where
  "google_chat_request p request =
     \<lparr>http_url = google_baseUrl @ ''/models/'' @ request_model request
                  @ '':generateContent?key='' @ google_apiKey p,
      http_method = ''POST'', http_headers = [(''Content-Type'', ''application/json'')],
      http_body = Some (google_generation_body request)\<rparr>"

definition google_stream_request :: "google_provider \<Rightarrow> chat_request \<Rightarrow> http_request" where
  "google_stream_request p request =
     \<lparr>http_url = google_baseUrl @ ''/models/'' @ request_model request
                  @ '':streamGenerateContent?alt=sse&key='' @ google_apiKey p,
      http_method = ''POST'', http_headers = [(''Content-Type'', ''application/json'')],
      http_body = Some (google_generation_body request)\<rparr>"

text \<open>\<^verbatim>\<open>resp.json || {}\<close>\<close>

definition or_empty_object :: "json \<Rightarrow> json" where
  "or_empty_object j = (if truthy j then j else JObj [])"


definition google_chat ::
  "json_parser \<Rightarrow> network \<Rightarrow> google_provider \<Rightarrow> chat_request \<Rightarrow> exn + chat_response"
where
  "google_chat parse net p request =
     try_catch
       (and_then (host (requestUrl net False (google_chat_request p request))) (\<lambda>resp.
          if reply_status resp \<noteq> 200 then
            and_then (host (reply_json parse resp)) (\<lambda>j.
              let errorData = or_empty_object j;
                  errorMsg =
                    (case opt_prop (own_prop errorData ''error'') ''message'' of
                       Some m \<Rightarrow>
                         if truthy m then Val m
                         else if reply_text resp \<noteq> [] then Lit (reply_text resp)
                         else Lit (''HTTP '' @ nat_to_string (reply_status resp))
                     | None \<Rightarrow>
                         if reply_text resp \<noteq> [] then Lit (reply_text resp)
                         else Lit (''HTTP '' @ nat_to_string (reply_status resp)))
              in Inl (Raised [Lit ''Google AI: '', errorMsg]))
          else
            and_then (host (reply_json parse resp)) (\<lambda>data.
            and_then (host (get_prop data ''promptFeedback'')) (\<lambda>promptFeedback.
              if truthy_opt (opt_prop promptFeedback ''blockReason'') then
                Inl (Raised [Lit ''Content blocked: '',
                             Val (or_empty (opt_prop promptFeedback ''blockReason''))])
              else
                let candidate = opt_at0 (own_prop data ''candidates'');
                    text = or_empty (opt_prop (opt_at0 (opt_prop (opt_prop candidate
                             ''content'') ''parts'')) ''text'')
                in if \<not> truthy text \<and> truthy_opt (opt_prop candidate ''finishReason'') then
                     Inl (Raised [Lit ''No response. Reason: '',
                                  Val (or_empty (opt_prop candidate ''finishReason''))])
                   else
                     Inr \<lparr>response_text = Some text,
                          response_usage =
                            (case own_prop data ''usageMetadata'' of
                               None \<Rightarrow> None
                             | Some u \<Rightarrow>
                                 if truthy u
                                 then Some \<lparr>promptTokens = own_prop u ''promptTokenCount'',
                                            completionTokens = own_prop u ''candidatesTokenCount''\<rparr>
                                 else None)\<rparr>))))
       (\<lambda>e. Inl e)"

definition google_chatStream ::
  "json_parser \<Rightarrow> network \<Rightarrow> google_provider \<Rightarrow> chat_request \<Rightarrow> exn + token_delta list"
where
  "google_chatStream parse net p request =
     and_then (host (fetch net (google_stream_request p request))) (\<lambda>response.
       if \<not> reply_ok response then
         Inl (Raised [Lit ''Google AI: '', stream_error_message parse response])
       else
         (case reply_body response of
            None \<Rightarrow> Inl (Raised [Lit ''No response body''])
          | Some chunks \<Rightarrow> Inr (parseGeminiStream parse chunks)))"

section \<open>Stream parsers: the loop all five share\<close>

lemma for_lines_all:
  assumes "P terminal"
    and "\<forall>s l s' d. body s l = (s', Yield d) \<longrightarrow> P d"
  shows "\<forall>d\<in>set (fst (for_lines body st ls)). P d"
proof (induction ls arbitrary: st)
  case Nil
  show ?case by simp
next
  case (Cons l ls)
  obtain s' r where b: "body st l = (s', r)" by (cases "body st l")
  show ?case
  proof (cases r)
    case Continue
    with b Cons show ?thesis by simp
  next
    case (Yield d)
    with b assms(2) have "P d" by blast
    with b Yield Cons [of s'] show ?thesis
      by (auto split: prod.splits)
  next
    case Return_done
    with b assms(1) show ?thesis by simp
  qed
qed

lemma read_loop_all:
  assumes "P terminal"
    and "\<forall>s l s' d. body s l = (s', Yield d) \<longrightarrow> P d"
  shows "\<forall>d\<in>set (read_loop body st buf reads). P d"
proof (induction reads arbitrary: st buf)
  case Nil
  show ?case using assms(1) by simp
next
  case (Cons c reads)
  obtain popped lines where p: "pop (split_on CHR 0x0A (buf @ c)) = (popped, lines)"
    by (cases "pop (split_on CHR 0x0A (buf @ c))")
  obtain ds s' r where f: "for_lines body st lines = (ds, s', r)"
    by (cases "for_lines body st lines")
  from for_lines_all [of P body st lines] assms f have "\<forall>d\<in>set ds. P d" by simp
  with p f Cons [of s' "or_empty_string popped"] show ?case by auto
qed

lemma for_lines_shape:
  assumes "\<forall>s l s' d. body s l = (s', Yield d) \<longrightarrow> \<not> delta_done d"
  shows "for_lines body st ls = (ds, st', r) \<Longrightarrow>
         (\<exists>pre. ds = (if r then pre @ [terminal] else pre) \<and> (\<forall>d\<in>set pre. \<not> delta_done d))"
proof (induction ls arbitrary: st ds st' r)
  case Nil
  then show ?case by auto
next
  case (Cons l ls)
  obtain s1 res where b: "body st l = (s1, res)" by (cases "body st l")
  show ?case
  proof (cases res)
    case Continue
    with b Cons show ?thesis by simp
  next
    case (Yield d)
    with b assms have nd: "\<not> delta_done d" by blast
    obtain ds1 s2 r1 where f: "for_lines body s1 ls = (ds1, s2, r1)"
      by (cases "for_lines body s1 ls")
    from Cons.IH [OF f] obtain pre where
      pre: "ds1 = (if r1 then pre @ [terminal] else pre)" "\<forall>d\<in>set pre. \<not> delta_done d"
      by blast
    from Cons.prems b Yield f have "ds = d # ds1" "r = r1" by simp_all
    with pre nd have "ds = (if r then (d # pre) @ [terminal] else d # pre)
        \<and> (\<forall>x\<in>set (d # pre). \<not> delta_done x)" by simp
    then show ?thesis by blast
  next
    case Return_done
    with b Cons.prems have "ds = [] @ [terminal]" "r" by simp_all
    then show ?thesis by force
  qed
qed

lemma read_loop_shape:
  assumes "\<forall>s l s' d. body s l = (s', Yield d) \<longrightarrow> \<not> delta_done d"
  shows "\<exists>pre. read_loop body st buf reads = pre @ [terminal] \<and> (\<forall>d\<in>set pre. \<not> delta_done d)"
proof (induction reads arbitrary: st buf)
  case Nil
  show ?case by simp
next
  case (Cons c reads)
  obtain popped lines where p: "pop (split_on CHR 0x0A (buf @ c)) = (popped, lines)"
    by (cases "pop (split_on CHR 0x0A (buf @ c))")
  obtain ds s' r where f: "for_lines body st lines = (ds, s', r)"
    by (cases "for_lines body st lines")
  from for_lines_shape [of body st lines ds s' r] assms f obtain pre where
    pre: "ds = (if r then pre @ [terminal] else pre)" "\<forall>d\<in>set pre. \<not> delta_done d"
    by blast
  show ?case
  proof (cases r)
    case True
    with p f pre show ?thesis by auto
  next
    case False
    from Cons [of s' "or_empty_string popped"] obtain pre2 where
      "read_loop body s' (or_empty_string popped) reads = pre2 @ [terminal]"
      "\<forall>d\<in>set pre2. \<not> delta_done d" by blast
    with False p f pre have "read_loop body st buf (c # reads) = (pre @ pre2) @ [terminal]
       \<and> (\<forall>d\<in>set (pre @ pre2). \<not> delta_done d)" by auto
    then show ?thesis by blast
  qed
qed

lemma terminal_done: "delta_done terminal"
  by (simp add: terminal_def)

lemma one_terminal:
  assumes "ds = pre @ [terminal]" and "\<forall>d\<in>set pre. \<not> delta_done d"
  shows "length (filter delta_done ds) = 1 \<and> ds \<noteq> [] \<and> last ds = terminal"
proof -
  from assms(2) have "filter delta_done pre = []" by (simp add: filter_empty_conv)
  with assms(1) show ?thesis by (simp add: terminal_done)
qed

subsection \<open>Reads and lines\<close>

text \<open>
  The deltas depend on the text only, not on how the reads cut it: a line that a read
  splits is parsed once the read that completes it has arrived.
\<close>

lemma split_on_nonempty: "split_on sep s \<noteq> []"
  by (induction s) (auto split: list.splits)

lemma split_on_no_sep: "sep \<notin> set s \<Longrightarrow> split_on sep s = [s]"
  by (induction s) auto

lemma split_on_Cons_other:
  "c \<noteq> sep \<Longrightarrow> split_on sep (c # s) = (c # hd (split_on sep s)) # tl (split_on sep s)"
  using split_on_nonempty [of sep s] by (auto split: list.splits)

lemma split_on_append:
  "split_on sep (a @ b) =
     butlast (split_on sep a) @ (last (split_on sep a) @ hd (split_on sep b)) # tl (split_on sep b)"
proof (induction a)
  case Nil
  show ?case using split_on_nonempty [of sep b] by simp
next
  case (Cons c a)
  show ?case
  proof (cases "c = sep")
    case True
    with Cons show ?thesis by (simp add: split_on_nonempty)
  next
    case False
    obtain x xs where sa: "split_on sep a = x # xs"
      using split_on_nonempty [of sep a] by (cases "split_on sep a") auto
    have sca: "split_on sep (c # a) = (c # x) # xs"
      using False sa by simp
    have sab: "split_on sep ((c # a) @ b)
        = (c # hd (split_on sep (a @ b))) # tl (split_on sep (a @ b))"
      using split_on_Cons_other [OF False, of "a @ b"] by simp
    show ?thesis
    proof (cases "xs = []")
      case True
      with sa Cons.IH have "split_on sep (a @ b) = (x @ hd (split_on sep b)) # tl (split_on sep b)"
        by simp
      with sab sca True show ?thesis by simp
    next
      case False
      with sa Cons.IH have "split_on sep (a @ b)
          = x # butlast xs @ (last xs @ hd (split_on sep b)) # tl (split_on sep b)"
        by simp
      with sab sca False show ?thesis by simp
    qed
  qed
qed

lemma last_split_on_no_sep: "sep \<notin> set (last (split_on sep s))"
proof (induction s)
  case Nil
  show ?case by simp
next
  case (Cons c s)
  obtain x xs where sa: "split_on sep s = x # xs"
    using split_on_nonempty [of sep s] by (cases "split_on sep s") auto
  with Cons show ?case by (cases "xs = []") auto
qed

lemma pop_split_on:
  "pop (split_on sep s) = (Some (last (split_on sep s)), butlast (split_on sep s))"
  by (simp add: pop_def split_on_nonempty)

lemma for_lines_append:
  "for_lines body st (xs @ ys) =
     (case for_lines body st xs of
        (ds, st', returned) \<Rightarrow>
          if returned then (ds, st', returned)
          else (case for_lines body st' ys of (ds', st'', r) \<Rightarrow> (ds @ ds', st'', r)))"
proof (induction xs arbitrary: st)
  case Nil
  show ?case by (simp split: prod.splits)
next
  case (Cons l xs)
  obtain s1 res where b: "body st l = (s1, res)" by (cases "body st l")
  show ?case
    using b Cons [of s1] by (cases res) (auto split: prod.splits)
qed

lemma read_loop_single:
  "read_loop body st buf [text] =
     (case for_lines body st (butlast (split_on CHR 0x0A (buf @ text))) of
        (ds, st', returned) \<Rightarrow> if returned then ds else ds @ [terminal])"
  by (simp add: pop_split_on split: prod.splits)

lemma read_loop_concat:
  "CHR 0x0A \<notin> set buf \<Longrightarrow> read_loop body st buf reads = read_loop body st buf [concat reads]"
proof (induction reads arbitrary: st buf)
  case Nil
  then show ?case by (simp add: split_on_no_sep pop_def)
next
  case (Cons c reads)
  let ?sp = "split_on CHR 0x0A"
  let ?b1 = "last (?sp (buf @ c))"
  let ?rest = "concat reads"
  obtain ds s1 r where f: "for_lines body st (butlast (?sp (buf @ c))) = (ds, s1, r)"
    by (cases "for_lines body st (butlast (?sp (buf @ c)))")
  have nb: "CHR 0x0A \<notin> set ?b1" by (rule last_split_on_no_sep)
  have lhs: "read_loop body st buf (c # reads)
      = (if r then ds else ds @ read_loop body s1 ?b1 [?rest])"
    using f Cons.IH [OF nb, of s1] by (simp add: pop_split_on or_empty_string_def)
  have sp2: "?sp (?b1 @ ?rest) = (?b1 @ hd (?sp ?rest)) # tl (?sp ?rest)"
    using split_on_append [of "CHR 0x0A" ?b1 ?rest] nb by (simp add: split_on_no_sep)
  have "?sp (buf @ c @ ?rest) = butlast (?sp (buf @ c)) @ ?sp (?b1 @ ?rest)"
    using split_on_append [of "CHR 0x0A" "buf @ c" ?rest] sp2 by simp
  then have bl: "butlast (?sp (buf @ c @ ?rest))
      = butlast (?sp (buf @ c)) @ butlast (?sp (?b1 @ ?rest))"
    by (simp add: butlast_append split_on_nonempty)
  have rhs: "read_loop body st buf [concat (c # reads)]
      = (if r then ds else ds @ read_loop body s1 ?b1 [?rest])"
    unfolding read_loop_single [of body st buf] read_loop_single [of body s1 ?b1]
    using f bl by (simp add: for_lines_append split: prod.splits)
  from lhs rhs show ?case by simp
qed

subsection \<open>After the terminal signal\<close>

lemma last_split_on_line_start:
  "pre = [] \<or> last pre = sep \<Longrightarrow> last (split_on sep pre) = []"
proof (cases "pre = []")
  case True
  then show ?thesis by simp
next
  case False
  assume "pre = [] \<or> last pre = sep"
  with False have "pre = butlast pre @ [sep]" by (metis append_butlast_last_id)
  then have "split_on sep pre = split_on sep (butlast pre @ [sep])" by simp
  also have "\<dots> = butlast (split_on sep (butlast pre)) @ [last (split_on sep (butlast pre)), []]"
    by (simp add: split_on_append)
  finally show ?thesis by simp
qed

lemma split_on_line:
  assumes "sep \<notin> set line"
  shows "split_on sep (line @ sep # post) = line # split_on sep post"
proof -
  have "split_on sep (line @ [sep]) = [line, []]"
    using assms by (simp add: split_on_append split_on_no_sep)
  then have "split_on sep ((line @ [sep]) @ post) = line # split_on sep post"
    using split_on_nonempty [of sep post]
    by (simp only: split_on_append [of sep "line @ [sep]" post]) simp
  then show ?thesis by simp
qed

lemma complete_lines_up_to:
  assumes "pre = [] \<or> last pre = sep" and "sep \<notin> set line"
  shows "butlast (split_on sep (pre @ line @ sep # post))
       = butlast (split_on sep pre) @ line # butlast (split_on sep post)"
proof -
  have "split_on sep (pre @ (line @ sep # post))
      = butlast (split_on sep pre) @ line # split_on sep post"
    using split_on_append [of sep pre "line @ sep # post"]
      last_split_on_line_start [OF assms(1)] split_on_line [OF assms(2), of post]
    by simp
  then show ?thesis by (simp add: butlast_append split_on_nonempty)
qed

lemma for_lines_returns_at:
  assumes "\<forall>s. snd (body s line) = Return_done"
  shows "fst (for_lines body st (xs @ line # ys)) = fst (for_lines body st (xs @ [line]))
       \<and> snd (snd (for_lines body st (xs @ line # ys)))
       \<and> snd (snd (for_lines body st (xs @ [line])))"
proof -
  obtain ds s1 r where f: "for_lines body st xs = (ds, s1, r)"
    by (cases "for_lines body st xs")
  obtain s2 where "body s1 line = (s2, Return_done)"
    using assms by (metis prod.collapse)
  with f show ?thesis by (simp add: for_lines_append)
qed

lemma read_loop_stops:
  assumes "concat reads = pre @ line @ CHR 0x0A # post"
    and "pre = [] \<or> last pre = CHR 0x0A"
    and "CHR 0x0A \<notin> set line"
    and "\<forall>s. snd (body s line) = Return_done"
  shows "read_loop body st [] reads = read_loop body st [] [pre @ line @ [CHR 0x0A]]"
proof -
  let ?A = "butlast (split_on CHR 0x0A pre)"
  have l: "butlast (split_on CHR 0x0A (pre @ line @ CHR 0x0A # post))
      = ?A @ line # butlast (split_on CHR 0x0A post)"
    by (rule complete_lines_up_to [OF assms(2,3)])
  have r: "butlast (split_on CHR 0x0A (pre @ line @ [CHR 0x0A])) = ?A @ [line]"
    using complete_lines_up_to [OF assms(2,3), of "[]"] by simp
  have s: "\<And>ys. fst (for_lines body st (?A @ line # ys)) = fst (for_lines body st (?A @ [line]))
       \<and> snd (snd (for_lines body st (?A @ line # ys)))
       \<and> snd (snd (for_lines body st (?A @ [line])))"
    using for_lines_returns_at [of body line st ?A] assms(4) by blast
  have single: "\<And>text. read_loop body st [] [text] =
      (if snd (snd (for_lines body st (butlast (split_on CHR 0x0A text))))
       then fst (for_lines body st (butlast (split_on CHR 0x0A text)))
       else fst (for_lines body st (butlast (split_on CHR 0x0A text))) @ [terminal])"
    by (simp add: pop_split_on split: prod.splits)
  have "read_loop body st [] reads = read_loop body st [] [concat reads]"
    by (rule read_loop_concat) simp
  also have "\<dots> = fst (for_lines body st (?A @ line # butlast (split_on CHR 0x0A post)))"
    unfolding assms(1) single l using s [of "butlast (split_on CHR 0x0A post)"] by simp
  also have "\<dots> = fst (for_lines body st (?A @ [line]))"
    using s by simp
  also have "\<dots> = read_loop body st [] [pre @ line @ [CHR 0x0A]]"
    unfolding single r using s [of "[]"] by simp
  finally show ?thesis .
qed

lemma read_loop_text:
  "read_loop body st [] reads =
     (if snd (snd (for_lines body st (butlast (split_on CHR 0x0A (concat reads)))))
      then fst (for_lines body st (butlast (split_on CHR 0x0A (concat reads))))
      else fst (for_lines body st (butlast (split_on CHR 0x0A (concat reads)))) @ [terminal])"
proof -
  have "read_loop body st [] reads = read_loop body st [] [concat reads]"
    by (rule read_loop_concat) simp
  then show ?thesis by (simp add: pop_split_on split: prod.splits)
qed

section \<open>Stream parsers: the five line bodies\<close>

lemma parseSSEStream_line_yield:
  "parseSSEStream_line parse line = Yield d \<Longrightarrow> \<not> delta_done d \<and> truthy (delta_content d)"
  by (auto simp: parseSSEStream_line_def Let_def split: if_splits sum.splits)

lemma parseStream_line_yield:
  "parseStream_line parse line = Yield d \<Longrightarrow> \<not> delta_done d \<and> truthy (delta_content d)"
  by (auto simp: parseStream_line_def Let_def split: if_splits sum.splits)

lemma parseGeminiStream_line_yield:
  "parseGeminiStream_line parse line = Yield d \<Longrightarrow> \<not> delta_done d \<and> truthy (delta_content d)"
  by (auto simp: parseGeminiStream_line_def Let_def split: if_splits sum.splits)

lemma parseOllamaStream_line_yield:
  "parseOllamaStream_line parse line = Yield d \<Longrightarrow> \<not> delta_done d"
  by (auto simp: parseOllamaStream_line_def Let_def split: if_splits sum.splits)

lemma parseMinimaxStream_line_yield:
  "parseMinimaxStream_line parse showThinking b line = (b', Yield d)
     \<Longrightarrow> \<not> delta_done d \<and> truthy (delta_content d)"
  by (auto simp: parseMinimaxStream_line_def Let_def
      split: if_splits sum.splits prod.splits filter_result.splits)

lemma parseSSEStream_line_done: "parseSSEStream_line parse ''data: [DONE]'' = Return_done"
  by (simp add: parseSSEStream_line_def slice_def)

lemma parseStream_line_done:
  "startsWith line ''data: '' \<Longrightarrow> trim (slice 6 line) = ''[DONE]''
     \<Longrightarrow> parseStream_line parse line = Return_done"
  by (simp add: parseStream_line_def)

lemma parseMinimaxStream_line_done:
  "startsWith line ''data: '' \<Longrightarrow> trim (slice 6 line) = ''[DONE]''
     \<Longrightarrow> snd (parseMinimaxStream_line parse showThinking b line) = Return_done"
  by (simp add: parseMinimaxStream_line_def)

lemma ends_with_one_terminalI:
  assumes "\<forall>s l s' d. body s l = (s', Yield d) \<longrightarrow> \<not> delta_done d"
  shows "ends_with_one_terminal (read_loop body st buf reads)"
proof -
  from read_loop_shape [of body st buf reads] assms obtain pre where
    "read_loop body st buf reads = pre @ [terminal]" "\<forall>d\<in>set pre. \<not> delta_done d" by blast
  then show ?thesis
    unfolding ends_with_one_terminal_def using one_terminal by blast
qed

lemma parseSSEStream_one_terminal: "ends_with_one_terminal (parseSSEStream parse body)"
  unfolding parseSSEStream_def
  by (rule ends_with_one_terminalI) (auto dest: parseSSEStream_line_yield)

lemma parseStream_one_terminal: "ends_with_one_terminal (parseStream parse body)"
  unfolding parseStream_def
  by (rule ends_with_one_terminalI) (auto dest: parseStream_line_yield)

lemma parseGeminiStream_one_terminal: "ends_with_one_terminal (parseGeminiStream parse body)"
  unfolding parseGeminiStream_def
  by (rule ends_with_one_terminalI) (auto dest: parseGeminiStream_line_yield)

lemma parseOllamaStream_one_terminal: "ends_with_one_terminal (parseOllamaStream parse body)"
  unfolding parseOllamaStream_def
  by (rule ends_with_one_terminalI) (auto dest: parseOllamaStream_line_yield)

lemma parseMinimaxStream_one_terminal:
  "ends_with_one_terminal (parseMinimaxStream parse showThinking body)"
  unfolding parseMinimaxStream_def
  by (rule ends_with_one_terminalI) (auto dest: parseMinimaxStream_line_yield)

lemma parseSSEStream_stops:
  assumes "concat body = pre @ ''data: [DONE]'' @ CHR 0x0A # post" and "at_line_start pre"
  shows "parseSSEStream parse body = parseSSEStream parse [pre @ ''data: [DONE]'' @ [CHR 0x0A]]"
  unfolding parseSSEStream_def
  using assms
  by (intro read_loop_stops) (simp_all add: at_line_start_def parseSSEStream_line_done)

lemma parseStream_stops:
  assumes "concat body = pre @ line @ CHR 0x0A # post" and "at_line_start pre"
    and "CHR 0x0A \<notin> set line" and "startsWith line ''data: ''"
    and "trim (slice 6 line) = ''[DONE]''"
  shows "parseStream parse body = parseStream parse [pre @ line @ [CHR 0x0A]]"
  unfolding parseStream_def
  using assms
  by (intro read_loop_stops) (simp_all add: at_line_start_def parseStream_line_done)

lemma parseMinimaxStream_stops:
  assumes "concat body = pre @ line @ CHR 0x0A # post" and "at_line_start pre"
    and "CHR 0x0A \<notin> set line" and "startsWith line ''data: ''"
    and "trim (slice 6 line) = ''[DONE]''"
  shows "parseMinimaxStream parse showThinking body
       = parseMinimaxStream parse showThinking [pre @ line @ [CHR 0x0A]]"
  unfolding parseMinimaxStream_def
  using assms
  by (intro read_loop_stops) (simp_all add: at_line_start_def parseMinimaxStream_line_done)

lemma parseOllamaStream_stops:
  assumes "concat body = pre @ line @ CHR 0x0A # post" and "at_line_start pre"
    and "CHR 0x0A \<notin> set line" and "parseOllamaStream_line parse line = Return_done"
  shows "parseOllamaStream parse body = parseOllamaStream parse [pre @ line @ [CHR 0x0A]]"
  unfolding parseOllamaStream_def
  using assms
  by (intro read_loop_stops) (simp_all add: at_line_start_def)

lemma parseOllamaStream_line_done_iff:
  "parseOllamaStream_line parse line = Return_done \<longleftrightarrow>
     trim line \<noteq> [] \<and> (\<exists>parsed d. parse line = Inr parsed \<and> own_prop parsed ''done'' = Some d \<and> truthy d)"
  by (cases "parse line")
    (auto simp: parseOllamaStream_line_def get_prop_def truthy_opt_def
      split: if_splits sum.splits option.splits)

lemma parseGeminiStream_line_never_returns: "parseGeminiStream_line parse line \<noteq> Return_done"
  by (auto simp: parseGeminiStream_line_def Let_def split: if_splits sum.splits)

section \<open>Stream parsers: the claims\<close>

text \<open>
  In what follows a body is the list of the chunks of text that the reader delivers
  before it reports the end; a read that fails is not a byte stream and is outside
  these statements.
\<close>

text \<open>
  C2. For every body and every \<^verbatim>\<open>JSON.parse\<close>, each of the five generators (the three
  with SSE framing, the newline-delimited one of Ollama and the Gemini one) yields exactly
  one delta with \<^verbatim>\<open>done=true\<close>, and that delta is the last one. Once the terminal signal
  is recognized on a complete line (the \<^verbatim>\<open>[DONE]\<close> sentinel, or for Ollama an object
  whose \<^verbatim>\<open>done\<close> is truthy), the deltas are those of the text up to and including that
  line: whatever follows it, complete lines included, yields nothing. The Gemini generator
  has no terminal signal other than the end of the body.
\<close>

theorem stream_terminal_delta:
  "ends_with_one_terminal (parseSSEStream parse body)
   \<and> ends_with_one_terminal (parseStream parse body)
   \<and> ends_with_one_terminal (parseMinimaxStream parse showThinking body)
   \<and> ends_with_one_terminal (parseOllamaStream parse body)
   \<and> ends_with_one_terminal (parseGeminiStream parse body)
   \<and> (\<forall>pre line post.
         concat body = pre @ line @ CHR 0x0A # post \<and> at_line_start pre \<and> CHR 0x0A \<notin> set line \<longrightarrow>
           (line = ''data: [DONE]'' \<longrightarrow>
              parseSSEStream parse body = parseSSEStream parse [pre @ line @ [CHR 0x0A]])
         \<and> (startsWith line ''data: '' \<and> trim (slice 6 line) = ''[DONE]'' \<longrightarrow>
              parseStream parse body = parseStream parse [pre @ line @ [CHR 0x0A]]
            \<and> parseMinimaxStream parse showThinking body
                = parseMinimaxStream parse showThinking [pre @ line @ [CHR 0x0A]])
         \<and> (\<forall>parsed d. trim line \<noteq> [] \<and> parse line = Inr parsed
                \<and> own_prop parsed ''done'' = Some d \<and> truthy d \<longrightarrow>
              parseOllamaStream parse body = parseOllamaStream parse [pre @ line @ [CHR 0x0A]]))"
proof -
  have stops: "(line = ''data: [DONE]'' \<longrightarrow>
              parseSSEStream parse body = parseSSEStream parse [pre @ line @ [CHR 0x0A]])
         \<and> (startsWith line ''data: '' \<and> trim (slice 6 line) = ''[DONE]'' \<longrightarrow>
              parseStream parse body = parseStream parse [pre @ line @ [CHR 0x0A]]
            \<and> parseMinimaxStream parse showThinking body
                = parseMinimaxStream parse showThinking [pre @ line @ [CHR 0x0A]])
         \<and> (\<forall>parsed d. trim line \<noteq> [] \<and> parse line = Inr parsed
                \<and> own_prop parsed ''done'' = Some d \<and> truthy d \<longrightarrow>
              parseOllamaStream parse body = parseOllamaStream parse [pre @ line @ [CHR 0x0A]])"
    if h: "concat body = pre @ line @ CHR 0x0A # post \<and> at_line_start pre \<and> CHR 0x0A \<notin> set line"
    for pre line post
  proof (intro conjI impI allI)
    assume "line = ''data: [DONE]''"
    with h show "parseSSEStream parse body = parseSSEStream parse [pre @ line @ [CHR 0x0A]]"
      using parseSSEStream_stops [of body pre post parse] by simp
  next
    assume d: "startsWith line ''data: '' \<and> trim (slice 6 line) = ''[DONE]''"
    with h show "parseStream parse body = parseStream parse [pre @ line @ [CHR 0x0A]]"
      using parseStream_stops [of body pre line post parse] by simp
    from d h show "parseMinimaxStream parse showThinking body
        = parseMinimaxStream parse showThinking [pre @ line @ [CHR 0x0A]]"
      using parseMinimaxStream_stops [of body pre line post parse showThinking] by simp
  next
    fix parsed d
    assume "trim line \<noteq> [] \<and> parse line = Inr parsed
        \<and> own_prop parsed ''done'' = Some d \<and> truthy d"
    then have "parseOllamaStream_line parse line = Return_done"
      unfolding parseOllamaStream_line_done_iff by blast
    with h show "parseOllamaStream parse body = parseOllamaStream parse [pre @ line @ [CHR 0x0A]]"
      using parseOllamaStream_stops [of body pre line post parse] by simp
  qed
  have ends: "ends_with_one_terminal (parseSSEStream parse body)
   \<and> ends_with_one_terminal (parseStream parse body)
   \<and> ends_with_one_terminal (parseMinimaxStream parse showThinking body)
   \<and> ends_with_one_terminal (parseOllamaStream parse body)
   \<and> ends_with_one_terminal (parseGeminiStream parse body)"
    by (simp only: parseSSEStream_one_terminal parseStream_one_terminal
        parseMinimaxStream_one_terminal parseOllamaStream_one_terminal
        parseGeminiStream_one_terminal simp_thms)
  from stops have "\<forall>pre line post.
         concat body = pre @ line @ CHR 0x0A # post \<and> at_line_start pre \<and> CHR 0x0A \<notin> set line \<longrightarrow>
           (line = ''data: [DONE]'' \<longrightarrow>
              parseSSEStream parse body = parseSSEStream parse [pre @ line @ [CHR 0x0A]])
         \<and> (startsWith line ''data: '' \<and> trim (slice 6 line) = ''[DONE]'' \<longrightarrow>
              parseStream parse body = parseStream parse [pre @ line @ [CHR 0x0A]]
            \<and> parseMinimaxStream parse showThinking body
                = parseMinimaxStream parse showThinking [pre @ line @ [CHR 0x0A]])
         \<and> (\<forall>parsed d. trim line \<noteq> [] \<and> parse line = Inr parsed
                \<and> own_prop parsed ''done'' = Some d \<and> truthy d \<longrightarrow>
              parseOllamaStream parse body = parseOllamaStream parse [pre @ line @ [CHR 0x0A]])"
    by (intro allI impI)
  with ends show ?thesis by (intro conjI) (elim conjE, assumption)+
qed

theorem stream_terminal_delta_witness:
  "concat [''data: [DONE]\<newline>data: {\"choices\":[{\"delta\":{\"content\":\"late\"}}]}\<newline>'']
     = [] @ ''data: [DONE]'' @ CHR 0x0A # ''data: {\"choices\":[{\"delta\":{\"content\":\"late\"}}]}\<newline>''
   \<and> at_line_start []
   \<and> CHR 0x0A \<notin> set ''data: [DONE]''
   \<and> startsWith ''data: [DONE]'' ''data: ''
   \<and> trim (slice 6 ''data: [DONE]'') = ''[DONE]''
   \<and> parseSSEStream json_parse
         [''data: [DONE]\<newline>data: {\"choices\":[{\"delta\":{\"content\":\"late\"}}]}\<newline>'']
       = [terminal]
   \<and> parseStream json_parse
         [''data: [DONE]\<newline>data: {\"choices\":[{\"delta\":{\"content\":\"late\"}}]}\<newline>'']
       = [terminal]
   \<and> parseMinimaxStream json_parse False
         [''data: [DONE]\<newline>data: {\"choices\":[{\"delta\":{\"content\":\"late\"}}]}\<newline>'']
       = [terminal]
   \<and> ends_with_one_terminal (parseGeminiStream json_parse
         [''data: [DONE]\<newline>data: {\"choices\":[{\"delta\":{\"content\":\"late\"}}]}\<newline>''])
   \<and> concat [''{\"done\":true}\<newline>{\"message\":{\"content\":\"late\"},\"done\":false}\<newline>'']
     = [] @ ''{\"done\":true}'' @ CHR 0x0A # ''{\"message\":{\"content\":\"late\"},\"done\":false}\<newline>''
   \<and> CHR 0x0A \<notin> set ''{\"done\":true}''
   \<and> trim ''{\"done\":true}'' \<noteq> []
   \<and> json_parse ''{\"done\":true}'' = Inr (JObj [(''done'', JBool True)])
   \<and> own_prop (JObj [(''done'', JBool True)]) ''done'' = Some (JBool True)
   \<and> truthy (JBool True)
   \<and> parseOllamaStream json_parse
         [''{\"done\":true}\<newline>{\"message\":{\"content\":\"late\"},\"done\":false}\<newline>'']
       = [terminal]"
proof -
  let ?post = "''data: {\"choices\":[{\"delta\":{\"content\":\"late\"}}]}\<newline>''"
  let ?b = "[''data: [DONE]\<newline>data: {\"choices\":[{\"delta\":{\"content\":\"late\"}}]}\<newline>'']"
  have h1: "concat ?b = [] @ ''data: [DONE]'' @ CHR 0x0A # ?post" by simp
  have h2: "at_line_start []" by (simp add: at_line_start_def)
  have h3: "CHR 0x0A \<notin> set ''data: [DONE]''" by simp
  have h4: "startsWith ''data: [DONE]'' ''data: ''" by simp
  have h5: "trim (slice 6 ''data: [DONE]'') = ''[DONE]''" by code_simp
  note T = stream_terminal_delta [of json_parse ?b False]
  note S = T [THEN conjunct2, THEN conjunct2, THEN conjunct2, THEN conjunct2, THEN conjunct2,
      THEN spec, THEN spec, THEN spec, of "[]" "''data: [DONE]''" ?post]
  from S h1 h2 h3 have R: "(''data: [DONE]'' = ''data: [DONE]'' \<longrightarrow>
        parseSSEStream json_parse ?b = parseSSEStream json_parse [[] @ ''data: [DONE]'' @ [CHR 0x0A]])
     \<and> (startsWith ''data: [DONE]'' ''data: '' \<and> trim (slice 6 ''data: [DONE]'') = ''[DONE]'' \<longrightarrow>
        parseStream json_parse ?b = parseStream json_parse [[] @ ''data: [DONE]'' @ [CHR 0x0A]]
        \<and> parseMinimaxStream json_parse False ?b
          = parseMinimaxStream json_parse False [[] @ ''data: [DONE]'' @ [CHR 0x0A]])"
    by blast
  have e1: "parseSSEStream json_parse [[] @ ''data: [DONE]'' @ [CHR 0x0A]] = [terminal]"
    by code_simp
  have e2: "parseStream json_parse [[] @ ''data: [DONE]'' @ [CHR 0x0A]] = [terminal]"
    by code_simp
  have e3: "parseMinimaxStream json_parse False [[] @ ''data: [DONE]'' @ [CHR 0x0A]] = [terminal]"
    by code_simp
  from R h4 h5 e1 e2 e3 have
    "parseSSEStream json_parse ?b = [terminal]"
    "parseStream json_parse ?b = [terminal]"
    "parseMinimaxStream json_parse False ?b = [terminal]"
    by simp_all
  note sse = this
  let ?opost = "''{\"message\":{\"content\":\"late\"},\"done\":false}\<newline>''"
  let ?ob = "[''{\"done\":true}\<newline>{\"message\":{\"content\":\"late\"},\"done\":false}\<newline>'']"
  have o1: "concat ?ob = [] @ ''{\"done\":true}'' @ CHR 0x0A # ?opost" by simp
  have o3: "CHR 0x0A \<notin> set ''{\"done\":true}''" by simp
  have o4: "trim ''{\"done\":true}'' \<noteq> []" by code_simp
  have o5: "json_parse ''{\"done\":true}'' = Inr (JObj [(''done'', JBool True)])" by code_simp
  have o6: "own_prop (JObj [(''done'', JBool True)]) ''done'' = Some (JBool True)" by simp
  have o7: "truthy (JBool True)" by simp
  note O = stream_terminal_delta [of json_parse ?ob False, THEN conjunct2, THEN conjunct2,
      THEN conjunct2, THEN conjunct2, THEN conjunct2,
      THEN spec, THEN spec, THEN spec, of "[]" "''{\"done\":true}''" ?opost]
  from O o1 h2 o3 have "\<forall>parsed d. trim ''{\"done\":true}'' \<noteq> []
        \<and> json_parse ''{\"done\":true}'' = Inr parsed
        \<and> own_prop parsed ''done'' = Some d \<and> truthy d \<longrightarrow>
      parseOllamaStream json_parse ?ob
        = parseOllamaStream json_parse [[] @ ''{\"done\":true}'' @ [CHR 0x0A]]"
    by blast
  with o4 o5 o6 o7 have "parseOllamaStream json_parse ?ob
        = parseOllamaStream json_parse [[] @ ''{\"done\":true}'' @ [CHR 0x0A]]"
    by blast
  moreover have "parseOllamaStream json_parse [[] @ ''{\"done\":true}'' @ [CHR 0x0A]] = [terminal]"
    by code_simp
  ultimately have o8: "parseOllamaStream json_parse ?ob = [terminal]" by simp
  from sse h1 h2 h3 h4 h5 o1 o3 o4 o5 o6 o7 o8
    T [THEN conjunct2, THEN conjunct2, THEN conjunct2, THEN conjunct2, THEN conjunct1]
  show ?thesis by (intro conjI)
qed

text \<open>
  C3. The text of the three lines \<^verbatim>\<open>data: {"choices":[{"delta":{"content":"Hel"}}]}\<close>,
  \<^verbatim>\<open>data: {"choices":[{"delta":{"content":"lo"}}]}\<close> and \<^verbatim>\<open>data: [DONE]\<close>, each ended
  by a newline, fed to \<^verbatim>\<open>parseSSEStream\<close> in any division into reads and followed by
  any further text, yields the delta \<open>Hel\<close>, the delta \<open>lo\<close> and the terminal delta, in
  this order and nothing else. \<^verbatim>\<open>JSON.parse\<close> is any function that parses the two
  payloads to the objects they denote.
\<close>

theorem sse_round_trip:
  assumes "parse ''{\"choices\":[{\"delta\":{\"content\":\"Hel\"}}]}''
             = Inr (JObj [(''choices'', JArr [JObj [(''delta'', JObj [(''content'', JStr ''Hel'')])]])])"
    and "parse ''{\"choices\":[{\"delta\":{\"content\":\"lo\"}}]}''
             = Inr (JObj [(''choices'', JArr [JObj [(''delta'', JObj [(''content'', JStr ''lo'')])]])])"
    and "concat body = ''data: {\"choices\":[{\"delta\":{\"content\":\"Hel\"}}]}\<newline>''
                     @ ''data: {\"choices\":[{\"delta\":{\"content\":\"lo\"}}]}\<newline>''
                     @ ''data: [DONE]\<newline>'' @ rest"
  shows "parseSSEStream parse body
       = [\<lparr>delta_content = JStr ''Hel'', delta_done = False\<rparr>,
          \<lparr>delta_content = JStr ''lo'', delta_done = False\<rparr>,
          \<lparr>delta_content = JStr [], delta_done = True\<rparr>]"
proof -
  let ?l1 = "''data: {\"choices\":[{\"delta\":{\"content\":\"Hel\"}}]}''"
  let ?l2 = "''data: {\"choices\":[{\"delta\":{\"content\":\"lo\"}}]}''"
  let ?l3 = "''data: [DONE]''"
  have c: "concat body = ?l1 @ CHR 0x0A # ?l2 @ CHR 0x0A # ?l3 @ CHR 0x0A # rest"
    using assms(3) by simp
  have "split_on CHR 0x0A (concat body) = ?l1 # ?l2 # ?l3 # split_on CHR 0x0A rest"
    unfolding c by (subst split_on_line, simp)+ simp
  then have lines: "butlast (split_on CHR 0x0A (concat body))
      = ?l1 # ?l2 # ?l3 # butlast (split_on CHR 0x0A rest)"
    by (simp add: split_on_nonempty)
  have 1: "parseSSEStream_line parse ?l1
      = Yield \<lparr>delta_content = JStr ''Hel'', delta_done = False\<rparr>"
    using assms(1)
    by (simp add: parseSSEStream_line_def slice_def get_prop_def opt_at0_def opt_prop_def
        or_empty_def)
  have 2: "parseSSEStream_line parse ?l2
      = Yield \<lparr>delta_content = JStr ''lo'', delta_done = False\<rparr>"
    using assms(2)
    by (simp add: parseSSEStream_line_def slice_def get_prop_def opt_at0_def opt_prop_def
        or_empty_def)
  have 3: "parseSSEStream_line parse ?l3 = Return_done"
    by (rule parseSSEStream_line_done)
  show ?thesis
    unfolding parseSSEStream_def read_loop_text lines
    by (simp add: 1 2 3 terminal_def)
qed

theorem sse_round_trip_witness:
  "json_parse ''{\"choices\":[{\"delta\":{\"content\":\"Hel\"}}]}''
     = Inr (JObj [(''choices'', JArr [JObj [(''delta'', JObj [(''content'', JStr ''Hel'')])]])])
   \<and> json_parse ''{\"choices\":[{\"delta\":{\"content\":\"lo\"}}]}''
     = Inr (JObj [(''choices'', JArr [JObj [(''delta'', JObj [(''content'', JStr ''lo'')])]])])
   \<and> parseSSEStream json_parse
         [''data: {\"choices\":[{\"delta\":{\"content\":\"Hel\"}}]}\<newline>'',
          ''data: {\"choices\":[{\"delta\":{\"content\":\"lo\"}}]}\<newline>'',
          ''data: [DONE]\<newline>'']
       = [\<lparr>delta_content = JStr ''Hel'', delta_done = False\<rparr>,
          \<lparr>delta_content = JStr ''lo'', delta_done = False\<rparr>,
          \<lparr>delta_content = JStr [], delta_done = True\<rparr>]"
proof -
  have a: "json_parse ''{\"choices\":[{\"delta\":{\"content\":\"Hel\"}}]}''
     = Inr (JObj [(''choices'', JArr [JObj [(''delta'', JObj [(''content'', JStr ''Hel'')])]])])"
    by code_simp
  have b: "json_parse ''{\"choices\":[{\"delta\":{\"content\":\"lo\"}}]}''
     = Inr (JObj [(''choices'', JArr [JObj [(''delta'', JObj [(''content'', JStr ''lo'')])]])])"
    by code_simp
  have c: "concat [''data: {\"choices\":[{\"delta\":{\"content\":\"Hel\"}}]}\<newline>'',
          ''data: {\"choices\":[{\"delta\":{\"content\":\"lo\"}}]}\<newline>'',
          ''data: [DONE]\<newline>'']
       = ''data: {\"choices\":[{\"delta\":{\"content\":\"Hel\"}}]}\<newline>''
         @ ''data: {\"choices\":[{\"delta\":{\"content\":\"lo\"}}]}\<newline>''
         @ ''data: [DONE]\<newline>'' @ []"
    by simp
  from a b sse_round_trip [OF a b c] show ?thesis by (intro conjI)
qed

lemma read_loop_yields_nonempty:
  assumes "\<forall>s l s' d. body s l = (s', Yield d) \<longrightarrow> \<not> delta_done d \<and> truthy (delta_content d)"
  shows "\<forall>d\<in>set (read_loop body st buf reads).
      (\<not> delta_done d \<longrightarrow> truthy (delta_content d) \<and> delta_content d \<noteq> JStr [])
      \<and> (delta_content d = JStr [] \<longrightarrow> d = terminal)"
proof -
  let ?P = "\<lambda>d. (\<not> delta_done d \<longrightarrow> truthy (delta_content d) \<and> delta_content d \<noteq> JStr [])
      \<and> (delta_content d = JStr [] \<longrightarrow> d = terminal)"
  have t: "?P terminal" by (simp add: terminal_def)
  have y: "\<forall>s l s' d. body s l = (s', Yield d) \<longrightarrow> ?P d"
    using assms by fastforce
  from read_loop_all [of ?P body st buf reads] t y show ?thesis by blast
qed

text \<open>
  C10. In the four generators with SSE framing (OpenRouter, OpenAI-compatible, MiniMax
  with either setting of \<^verbatim>\<open>showThinking\<close>, Gemini) every delta with \<^verbatim>\<open>done=false\<close> has
  a truthy content, so never the empty string, and a delta with empty content is the
  terminal one. The generator of Ollama differs: a line whose message content is empty
  yields a delta with empty content and \<^verbatim>\<open>done=false\<close>.
\<close>

theorem sse_deltas_nonempty:
  "(\<forall>d\<in>set (parseSSEStream parse body).
      (\<not> delta_done d \<longrightarrow> truthy (delta_content d) \<and> delta_content d \<noteq> JStr [])
      \<and> (delta_content d = JStr [] \<longrightarrow> d = terminal))
   \<and> (\<forall>d\<in>set (parseStream parse body).
      (\<not> delta_done d \<longrightarrow> truthy (delta_content d) \<and> delta_content d \<noteq> JStr [])
      \<and> (delta_content d = JStr [] \<longrightarrow> d = terminal))
   \<and> (\<forall>d\<in>set (parseMinimaxStream parse showThinking body).
      (\<not> delta_done d \<longrightarrow> truthy (delta_content d) \<and> delta_content d \<noteq> JStr [])
      \<and> (delta_content d = JStr [] \<longrightarrow> d = terminal))
   \<and> (\<forall>d\<in>set (parseGeminiStream parse body).
      (\<not> delta_done d \<longrightarrow> truthy (delta_content d) \<and> delta_content d \<noteq> JStr [])
      \<and> (delta_content d = JStr [] \<longrightarrow> d = terminal))
   \<and> parseOllamaStream json_parse [''{\"message\":{\"content\":\"\"},\"done\":false}\<newline>'']
       = [\<lparr>delta_content = JStr [], delta_done = False\<rparr>,
          \<lparr>delta_content = JStr [], delta_done = True\<rparr>]"
proof -
  have 1: "\<forall>d\<in>set (parseSSEStream parse body).
      (\<not> delta_done d \<longrightarrow> truthy (delta_content d) \<and> delta_content d \<noteq> JStr [])
      \<and> (delta_content d = JStr [] \<longrightarrow> d = terminal)"
    unfolding parseSSEStream_def
    by (rule read_loop_yields_nonempty) (use parseSSEStream_line_yield in blast)
  have 2: "\<forall>d\<in>set (parseStream parse body).
      (\<not> delta_done d \<longrightarrow> truthy (delta_content d) \<and> delta_content d \<noteq> JStr [])
      \<and> (delta_content d = JStr [] \<longrightarrow> d = terminal)"
    unfolding parseStream_def
    by (rule read_loop_yields_nonempty) (use parseStream_line_yield in blast)
  have 3: "\<forall>d\<in>set (parseMinimaxStream parse showThinking body).
      (\<not> delta_done d \<longrightarrow> truthy (delta_content d) \<and> delta_content d \<noteq> JStr [])
      \<and> (delta_content d = JStr [] \<longrightarrow> d = terminal)"
    unfolding parseMinimaxStream_def
    by (rule read_loop_yields_nonempty) (use parseMinimaxStream_line_yield in blast)
  have 4: "\<forall>d\<in>set (parseGeminiStream parse body).
      (\<not> delta_done d \<longrightarrow> truthy (delta_content d) \<and> delta_content d \<noteq> JStr [])
      \<and> (delta_content d = JStr [] \<longrightarrow> d = terminal)"
    unfolding parseGeminiStream_def
    by (rule read_loop_yields_nonempty) (use parseGeminiStream_line_yield in blast)
  have 5: "parseOllamaStream json_parse [''{\"message\":{\"content\":\"\"},\"done\":false}\<newline>'']
       = [\<lparr>delta_content = JStr [], delta_done = False\<rparr>,
          \<lparr>delta_content = JStr [], delta_done = True\<rparr>]"
    by code_simp
  from 1 2 3 4 5 show ?thesis by (intro conjI)
qed

theorem sse_deltas_nonempty_witness:
  "\<lparr>delta_content = JStr ''Hel'', delta_done = False\<rparr>
     \<in> set (parseSSEStream json_parse
          [''data: {\"choices\":[{\"delta\":{\"content\":\"Hel\"}}]}\<newline>data: [DONE]\<newline>''])
   \<and> \<lparr>delta_content = JStr ''Hel'', delta_done = False\<rparr>
     \<in> set (parseStream json_parse
          [''data: {\"choices\":[{\"delta\":{\"content\":\"Hel\"}}]}\<newline>data: [DONE]\<newline>''])
   \<and> \<lparr>delta_content = JStr ''Hel'', delta_done = False\<rparr>
     \<in> set (parseMinimaxStream json_parse False
          [''data: {\"choices\":[{\"delta\":{\"content\":\"Hel\"}}]}\<newline>data: [DONE]\<newline>''])
   \<and> \<lparr>delta_content = JStr ''Hel'', delta_done = False\<rparr>
     \<in> set (parseGeminiStream json_parse
          [''data: {\"candidates\":[{\"content\":{\"parts\":[{\"text\":\"Hel\"}]}}]}\<newline>''])
   \<and> \<not> delta_done \<lparr>delta_content = JStr ''Hel'', delta_done = False\<rparr>
   \<and> truthy (delta_content \<lparr>delta_content = JStr ''Hel'', delta_done = False\<rparr>)
   \<and> delta_content \<lparr>delta_content = JStr ''Hel'', delta_done = False\<rparr> \<noteq> JStr []"
proof -
  let ?d = "\<lparr>delta_content = JStr ''Hel'', delta_done = False\<rparr>"
  let ?b = "[''data: {\"choices\":[{\"delta\":{\"content\":\"Hel\"}}]}\<newline>data: [DONE]\<newline>'']"
  let ?g = "[''data: {\"candidates\":[{\"content\":{\"parts\":[{\"text\":\"Hel\"}]}}]}\<newline>'']"
  have m1: "?d \<in> set (parseSSEStream json_parse ?b)" by code_simp
  have m2: "?d \<in> set (parseStream json_parse ?b)" by code_simp
  have m3: "?d \<in> set (parseMinimaxStream json_parse False ?b)" by code_simp
  have m4: "?d \<in> set (parseGeminiStream json_parse ?g)" by code_simp
  have n: "\<not> delta_done ?d" by simp
  note T = sse_deltas_nonempty [of json_parse ?b False]
  note G = sse_deltas_nonempty [of json_parse ?g False]
  from T [THEN conjunct1, THEN bspec, OF m1] n
  have "truthy (delta_content ?d) \<and> delta_content ?d \<noteq> JStr []" by blast
  moreover from T [THEN conjunct2, THEN conjunct1, THEN bspec, OF m2] n
  have "truthy (delta_content ?d) \<and> delta_content ?d \<noteq> JStr []" by blast
  moreover from T [THEN conjunct2, THEN conjunct2, THEN conjunct1, THEN bspec, OF m3] n
  have "truthy (delta_content ?d) \<and> delta_content ?d \<noteq> JStr []" by blast
  moreover from G [THEN conjunct2, THEN conjunct2, THEN conjunct2, THEN conjunct1, THEN bspec, OF m4] n
  have "truthy (delta_content ?d) \<and> delta_content ?d \<noteq> JStr []" by blast
  ultimately have "truthy (delta_content ?d) \<and> delta_content ?d \<noteq> JStr []" by blast
  with m1 m2 m3 m4 n show ?thesis by (intro conjI) blast+
qed

text \<open>
  C1 asks of \<^verbatim>\<open>parseMinimaxStream\<close> with \<^verbatim>\<open>showThinking=false\<close> that a think block whose
  delimiters arrive split across deltas is removed, the deltas \<^verbatim>\<open><thi\<close>,
  \<^verbatim>\<open>nk>hidden</think>Vis\<close>, \<^verbatim>\<open>ible\<close> giving \<open>Vis\<close> and \<open>ible\<close> only, and that the text
  before an opening delimiter in the same delta is emitted. The generator looks for each
  tag inside one delta at a time: on the three deltas it yields all three unchanged, the
  tag and the hidden text included; and on \<^verbatim>\<open>Before<think>hid\<close>, \<^verbatim>\<open>den</think>Vis\<close> it
  computes \<open>Before\<close> and then drops it at the \<^verbatim>\<open>continue\<close>.
\<close>

theorem parseMinimaxStream_split_delimiter:
  "parseMinimaxStream json_parse False
     [''data: {\"choices\":[{\"delta\":{\"content\":\"<thi\"}}]}\<newline>'',
      ''data: {\"choices\":[{\"delta\":{\"content\":\"nk>hidden</think>Vis\"}}]}\<newline>'',
      ''data: {\"choices\":[{\"delta\":{\"content\":\"ible\"}}]}\<newline>'',
      ''data: [DONE]\<newline>'']
   = [\<lparr>delta_content = JStr ''<thi'', delta_done = False\<rparr>,
      \<lparr>delta_content = JStr ''nk>hidden</think>Vis'', delta_done = False\<rparr>,
      \<lparr>delta_content = JStr ''ible'', delta_done = False\<rparr>,
      \<lparr>delta_content = JStr [], delta_done = True\<rparr>]
   \<and> parseMinimaxStream json_parse False
     [''data: {\"choices\":[{\"delta\":{\"content\":\"Before<think>hid\"}}]}\<newline>'',
      ''data: {\"choices\":[{\"delta\":{\"content\":\"den</think>Vis\"}}]}\<newline>'',
      ''data: [DONE]\<newline>'']
   = [\<lparr>delta_content = JStr ''Vis'', delta_done = False\<rparr>,
      \<lparr>delta_content = JStr [], delta_done = True\<rparr>]"
  by code_simp

section \<open>OpenAI-compatible adapter: the base URL\<close>

lemma startsWith_prefix: "startsWith s p \<longleftrightarrow> prefix p s"
  by (induction s p rule: startsWith.induct) auto

lemma endsWith_suffix: "endsWith s p \<longleftrightarrow> suffix p s"
  by (simp add: endsWith_def startsWith_prefix suffix_to_prefix)

lemma str_includes_sublist: "str_includes s p \<longleftrightarrow> sublist p s"
  by (induction s) (auto simp: startsWith_prefix sublist_Cons_right)

lemma strip_trailing_slashes_spec:
  "(\<exists>k. s = strip_trailing_slashes s @ replicate k CHR ''/'')
   \<and> \<not> suffix ''/'' (strip_trailing_slashes s)"
proof -
  let ?sl = "\<lambda>c. c = CHR ''/''"
  let ?t = "takeWhile ?sl (rev s)"
  let ?d = "dropWhile ?sl (rev s)"
  have "rev (?t @ ?d) = s" by simp
  then have s: "s = rev ?d @ rev ?t" by (simp only: rev_append)
  have "rev ?t = replicate (length ?t) CHR ''/''"
    by (rule replicate_eqI) (auto dest: set_takeWhileD)
  with s have 1: "s = strip_trailing_slashes s @ replicate (length ?t) CHR ''/''"
    unfolding strip_trailing_slashes_def by simp
  have 2: "\<not> suffix ''/'' (strip_trailing_slashes s)"
  proof
    assume "suffix ''/'' (strip_trailing_slashes s)"
    then obtain t where "rev ?d = t @ ''/''"
      unfolding strip_trailing_slashes_def suffix_def by blast
    then have "rev (rev ?d) = rev (t @ ''/'')" by simp
    then have d: "?d = CHR ''/'' # rev t" by simp
    then have "?d \<noteq> []" by simp
    then have "\<not> ?sl (hd ?d)" by (rule hd_dropWhile)
    with d show False by simp
  qed
  from 1 2 show ?thesis by blast
qed

lemma compat_baseUrl_new:
  "compat_baseUrl (new_OpenAICompatibleProvider baseUrl apiKey modelId) =
     (let u = strip_trailing_slashes baseUrl in
      if sublist ''/chat/completions'' u then u
      else if suffix ''/v1'' u then u @ ''/chat/completions''
      else if suffix ''/completions'' u then u
      else u @ ''/v1/chat/completions'')"
  by (simp add: new_OpenAICompatibleProvider_def Let_def str_includes_sublist endsWith_suffix)

lemma compat_request_urls:
  "http_url (compat_validate_request p) = compat_baseUrl p"
  "http_url (compat_chat_request p request stream) = compat_baseUrl p"
  by (simp_all add: compat_validate_request_def compat_chat_request_def)

lemma compat_only_base_url:
  assumes "\<forall>r. http_url r = compat_baseUrl p \<longrightarrow> net r = net' r"
  shows "compat_validate parse net p = compat_validate parse net' p
    \<and> compat_chat parse net p request = compat_chat parse net' p request
    \<and> compat_chatStream parse net p request = compat_chatStream parse net' p request"
proof -
  have v: "net (compat_validate_request p) = net' (compat_validate_request p)"
    using assms by (simp add: compat_request_urls)
  have c: "net (compat_chat_request p request stream) = net' (compat_chat_request p request stream)"
    for stream
    using assms by (simp add: compat_request_urls)
  have 1: "compat_validate parse net p = compat_validate parse net' p"
    using v by (simp add: compat_validate_def requestUrl_def)
  have 2: "compat_chat parse net p request = compat_chat parse net' p request"
    using c [of False] by (simp add: compat_chat_def requestUrl_def)
  have 3: "compat_chatStream parse net p request = compat_chatStream parse net' p request"
    using c [of True] by (simp add: compat_chatStream_def fetch_def)
  from 1 2 3 show ?thesis by simp
qed

text \<open>
  C6. The constructor of the OpenAI-compatible adapter strips all the slashes at the end
  of the configured base URL (what is left does not end in a slash, and the configured
  URL is what is left followed by slashes only). Then, if what is left does not contain
  \<^verbatim>\<open>/chat/completions\<close>, it appends \<^verbatim>\<open>/chat/completions\<close> when it ends in \<^verbatim>\<open>/v1\<close>,
  nothing when it ends in \<^verbatim>\<open>/completions\<close>, and \<^verbatim>\<open>/v1/chat/completions\<close> otherwise.
  The requests of \<^verbatim>\<open>validate\<close>, \<^verbatim>\<open>chat\<close> and \<^verbatim>\<open>chatStream\<close> carry this URL, and their
  results depend on the network at this URL only.
\<close>

theorem compat_base_url_normalized:
  "(\<exists>k. baseUrl = strip_trailing_slashes baseUrl @ replicate k CHR ''/'')
   \<and> \<not> suffix ''/'' (strip_trailing_slashes baseUrl)
   \<and> compat_baseUrl (new_OpenAICompatibleProvider baseUrl apiKey modelId) =
       (if sublist ''/chat/completions'' (strip_trailing_slashes baseUrl)
          then strip_trailing_slashes baseUrl
        else if suffix ''/v1'' (strip_trailing_slashes baseUrl)
          then strip_trailing_slashes baseUrl @ ''/chat/completions''
        else if suffix ''/completions'' (strip_trailing_slashes baseUrl)
          then strip_trailing_slashes baseUrl
        else strip_trailing_slashes baseUrl @ ''/v1/chat/completions'')
   \<and> http_url (compat_validate_request (new_OpenAICompatibleProvider baseUrl apiKey modelId))
       = compat_baseUrl (new_OpenAICompatibleProvider baseUrl apiKey modelId)
   \<and> http_url (compat_chat_request (new_OpenAICompatibleProvider baseUrl apiKey modelId) request stream)
       = compat_baseUrl (new_OpenAICompatibleProvider baseUrl apiKey modelId)
   \<and> ((\<forall>r. http_url r = compat_baseUrl (new_OpenAICompatibleProvider baseUrl apiKey modelId)
            \<longrightarrow> net r = net' r) \<longrightarrow>
        compat_validate parse net (new_OpenAICompatibleProvider baseUrl apiKey modelId)
          = compat_validate parse net' (new_OpenAICompatibleProvider baseUrl apiKey modelId)
      \<and> compat_chat parse net (new_OpenAICompatibleProvider baseUrl apiKey modelId) request
          = compat_chat parse net' (new_OpenAICompatibleProvider baseUrl apiKey modelId) request
      \<and> compat_chatStream parse net (new_OpenAICompatibleProvider baseUrl apiKey modelId) request
          = compat_chatStream parse net' (new_OpenAICompatibleProvider baseUrl apiKey modelId) request)"
proof -
  let ?p = "new_OpenAICompatibleProvider baseUrl apiKey modelId"
  note a = strip_trailing_slashes_spec [of baseUrl]
  have b: "compat_baseUrl ?p =
       (if sublist ''/chat/completions'' (strip_trailing_slashes baseUrl)
          then strip_trailing_slashes baseUrl
        else if suffix ''/v1'' (strip_trailing_slashes baseUrl)
          then strip_trailing_slashes baseUrl @ ''/chat/completions''
        else if suffix ''/completions'' (strip_trailing_slashes baseUrl)
          then strip_trailing_slashes baseUrl
        else strip_trailing_slashes baseUrl @ ''/v1/chat/completions'')"
    by (simp add: compat_baseUrl_new Let_def)
  have c: "(\<forall>r. http_url r = compat_baseUrl ?p \<longrightarrow> net r = net' r) \<longrightarrow>
        compat_validate parse net ?p = compat_validate parse net' ?p
      \<and> compat_chat parse net ?p request = compat_chat parse net' ?p request
      \<and> compat_chatStream parse net ?p request = compat_chatStream parse net' ?p request"
    using compat_only_base_url [of ?p net net' parse request] by (intro impI)
  from a b c compat_request_urls [of ?p] show ?thesis
    by (intro conjI) (elim conjE, assumption)+
qed

theorem compat_base_url_normalized_witness:
  "compat_baseUrl (new_OpenAICompatibleProvider ''https://api.deepseek.com/v1//'' ''sk-1'' ''deepseek-chat'')
     = ''https://api.deepseek.com/v1/chat/completions''
   \<and> compat_validate json_parse
         (\<lambda>r. Inr \<lparr>reply_status = 200, reply_statusText = ''OK'', reply_body = Some [''{}'']\<rparr>)
         (new_OpenAICompatibleProvider ''https://api.deepseek.com/v1//'' ''sk-1'' ''deepseek-chat'')
     = compat_validate json_parse
         (\<lambda>r. if http_url r = ''https://api.deepseek.com/v1/chat/completions''
               then Inr \<lparr>reply_status = 200, reply_statusText = ''OK'', reply_body = Some [''{}'']\<rparr>
               else Inl type_error)
         (new_OpenAICompatibleProvider ''https://api.deepseek.com/v1//'' ''sk-1'' ''deepseek-chat'')"
proof -
  let ?p = "new_OpenAICompatibleProvider ''https://api.deepseek.com/v1//'' ''sk-1'' ''deepseek-chat''"
  let ?net = "\<lambda>r::http_request. (Inr \<lparr>reply_status = 200, reply_statusText = ''OK'',
      reply_body = Some [''{}'']\<rparr> :: js_error + http_reply)"
  let ?net' = "\<lambda>r. if http_url r = ''https://api.deepseek.com/v1/chat/completions''
      then Inr \<lparr>reply_status = 200, reply_statusText = ''OK'', reply_body = Some [''{}'']\<rparr>
      else Inl type_error"
  have u: "compat_baseUrl ?p = ''https://api.deepseek.com/v1/chat/completions''"
    by code_simp
  have h: "\<forall>r::http_request. http_url r = compat_baseUrl ?p \<longrightarrow> ?net r = ?net' r"
    unfolding u by simp
  note T = compat_base_url_normalized [of "''https://api.deepseek.com/v1//''" "''sk-1''"
      "''deepseek-chat''" _ _ ?net ?net' json_parse]
  from T h have "compat_validate json_parse ?net ?p = compat_validate json_parse ?net' ?p"
    by blast
  with u show ?thesis by (intro conjI)
qed

section \<open>validate\<close>







lemma nat_to_string_nonempty: "nat_to_string n \<noteq> []"
  by (subst nat_to_string.simps) simp

















section \<open>chatStream: the handshake\<close>

lemma chatStream_without_body:
  assumes "reply_body r = None"
  shows "net (openrouter_chat_request p1 request True) = Inr r
           \<Longrightarrow> \<exists>e. openrouter_chatStream parse net p1 request = Inl e"
    and "net (google_stream_request p2 request) = Inr r
           \<Longrightarrow> \<exists>e. google_chatStream parse net p2 request = Inl e"
    and "net (ollama_chat_request p3 request True) = Inr r
           \<Longrightarrow> \<exists>e. ollama_chatStream parse net p3 request = Inl e"
    and "net (minimax_chat_request p4 request True) = Inr r
           \<Longrightarrow> \<exists>e. minimax_chatStream parse net p4 request = Inl e"
    and "net (compat_chat_request p5 request True) = Inr r
           \<Longrightarrow> \<exists>e. compat_chatStream parse net p5 request = Inl e"
  using assms
  by (simp_all add: openrouter_chatStream_def google_chatStream_def ollama_chatStream_def
      minimax_chatStream_def compat_chatStream_def and_then_def host_def fetch_def)

lemma chatStream_status_checked:
  assumes "\<not> reply_ok r"
  shows "net (google_stream_request p2 request) = Inr r
           \<Longrightarrow> \<exists>e. google_chatStream parse net p2 request = Inl e"
    and "net (minimax_chat_request p4 request True) = Inr r
           \<Longrightarrow> \<exists>e. minimax_chatStream parse net p4 request = Inl e"
    and "net (compat_chat_request p5 request True) = Inr r
           \<Longrightarrow> \<exists>e. compat_chatStream parse net p5 request = Inl e"
  using assms
  by (simp_all add: google_chatStream_def minimax_chatStream_def compat_chatStream_def
      and_then_def host_def fetch_def)

lemma chatStream_status_unchecked:
  assumes "reply_body r = Some chunks"
  shows "net (openrouter_chat_request p1 request True) = Inr r
           \<Longrightarrow> openrouter_chatStream parse net p1 request = Inr (parseSSEStream parse chunks)"
    and "net (ollama_chat_request p3 request True) = Inr r
           \<Longrightarrow> ollama_chatStream parse net p3 request = Inr (parseOllamaStream parse chunks)"
  using assms
  by (simp_all add: openrouter_chatStream_def ollama_chatStream_def and_then_def host_def
      fetch_def)

text \<open>
  C4 asks that \<^verbatim>\<open>chatStream\<close> of every adapter raises before it returns the stream when
  the handshake fails, by a status outside 200 to 299 or by a response without body. All
  five raise on a response without body (\<open>chatStream_without_body\<close>), and the adapters
  for Google AI, MiniMax and the OpenAI-compatible services raise on \<^verbatim>\<open>!response.ok\<close>
  (\<open>chatStream_status_checked\<close>). The adapters for OpenRouter and Ollama do not look
  at the status: on a 401 and on a 404 with an error body they return a stream, which
  yields the terminal delta and nothing else.
\<close>

theorem chatStream_returns_stream_on_error_status:
  "\<not> reply_ok \<lparr>reply_status = 401, reply_statusText = ''Unauthorized'',
        reply_body = Some [''{\"error\":{\"message\":\"No auth credentials found\",\"code\":401}}'']\<rparr>
   \<and> openrouter_chatStream json_parse
       (\<lambda>r. Inr \<lparr>reply_status = 401, reply_statusText = ''Unauthorized'',
           reply_body = Some [''{\"error\":{\"message\":\"No auth credentials found\",\"code\":401}}'']\<rparr>)
       (new_OpenRouterProvider ''bad-key'' None)
       \<lparr>request_model = ''openai/gpt-4o'',
        request_messages = [\<lparr>message_role = User, message_content = ''Hi''\<rparr>],
        request_maxTokens = None, request_temperature = None, request_stream = None\<rparr>
     = Inr [\<lparr>delta_content = JStr [], delta_done = True\<rparr>]
   \<and> \<not> reply_ok \<lparr>reply_status = 404, reply_statusText = ''Not Found'',
        reply_body = Some [''{\"error\":\"model not found\"}'']\<rparr>
   \<and> ollama_chatStream json_parse
       (\<lambda>r. Inr \<lparr>reply_status = 404, reply_statusText = ''Not Found'',
           reply_body = Some [''{\"error\":\"model not found\"}'']\<rparr>)
       (new_OllamaProvider (Some ''http://localhost:11434''))
       \<lparr>request_model = ''llama3'',
        request_messages = [\<lparr>message_role = User, message_content = ''Hi''\<rparr>],
        request_maxTokens = None, request_temperature = None, request_stream = None\<rparr>
     = Inr [\<lparr>delta_content = JStr [], delta_done = True\<rparr>]"
  by code_simp

section \<open>chat\<close>

lemma google_chat_ok:
  assumes "net (google_chat_request p request) = Inr r" and "reply_status r = 200"
    and "parse (reply_text r) = Inr data" and "data \<noteq> JNull"
  shows "google_chat parse net p request =
     (if truthy_opt (opt_prop (own_prop data ''promptFeedback'') ''blockReason'') then
        Inl (Raised [Lit ''Content blocked: '',
                     Val (or_empty (opt_prop (own_prop data ''promptFeedback'') ''blockReason''))])
      else if \<not> truthy (or_empty (opt_prop (opt_at0 (opt_prop (opt_prop
                  (opt_at0 (own_prop data ''candidates'')) ''content'') ''parts'')) ''text''))
              \<and> truthy_opt (opt_prop (opt_at0 (own_prop data ''candidates'')) ''finishReason'')
      then
        Inl (Raised [Lit ''No response. Reason: '',
                     Val (or_empty (opt_prop (opt_at0 (own_prop data ''candidates''))
                            ''finishReason''))])
      else
        Inr \<lparr>response_text = Some (or_empty (opt_prop (opt_at0 (opt_prop (opt_prop
                  (opt_at0 (own_prop data ''candidates'')) ''content'') ''parts'')) ''text'')),
             response_usage =
               (case own_prop data ''usageMetadata'' of
                  None \<Rightarrow> None
                | Some u \<Rightarrow>
                    if truthy u
                    then Some \<lparr>promptTokens = own_prop u ''promptTokenCount'',
                               completionTokens = own_prop u ''candidatesTokenCount''\<rparr>
                    else None)\<rparr>)"
  using assms
  by (simp add: google_chat_def try_catch_def and_then_def host_def requestUrl_def
      reply_json_def get_prop_def Let_def)

lemma or_empty_falsy: "\<not> truthy_opt v \<Longrightarrow> or_empty v = JStr []"
  by (simp add: or_empty_def truthy_opt_def split: option.splits)

lemma truthy_or_empty: "truthy (or_empty v) \<longleftrightarrow> truthy_opt v"
  by (simp add: or_empty_def truthy_opt_def split: option.splits)

text \<open>
  C7. When the reply to \<^verbatim>\<open>chat\<close> of the Google AI adapter has the success status 200 and
  its body carries a truthy \<^verbatim>\<open>promptFeedback.blockReason\<close>, \<^verbatim>\<open>chat\<close> raises the error
  \<^verbatim>\<open>Content blocked: <reason>\<close>, whatever the candidates of the body are: the check comes
  before the text is read, so no response with an empty text is returned.
\<close>

theorem google_chat_blocked:
  assumes "net (google_chat_request p request) = Inr r"
    and "reply_status r = 200"
    and "parse (reply_text r) = Inr data"
    and "opt_prop (own_prop data ''promptFeedback'') ''blockReason'' = Some reason"
    and "truthy reason"
  shows "google_chat parse net p request = Inl (Raised [Lit ''Content blocked: '', Val reason])"
proof -
  from assms(4) have "own_prop data ''promptFeedback'' \<noteq> None"
    by (auto simp: opt_prop_def split: option.splits)
  then have n: "data \<noteq> JNull" by auto
  from assms(4,5) have t: "truthy_opt (opt_prop (own_prop data ''promptFeedback'') ''blockReason'')"
    by (simp add: truthy_opt_def)
  from assms(4,5) have v: "or_empty (opt_prop (own_prop data ''promptFeedback'') ''blockReason'') = reason"
    by (simp add: or_empty_def)
  from google_chat_ok [of net p request r parse data] assms(1-3) n t v
  show ?thesis by simp
qed

theorem google_chat_blocked_witness:
  "answering \<lparr>reply_status = 200, reply_statusText = ''OK'',
       reply_body = Some [''{\"promptFeedback\":{\"blockReason\":\"SAFETY\"}}'']\<rparr>
     (google_chat_request (new_GoogleAIProvider ''key'')
        \<lparr>request_model = ''gemini-2.0-flash'',
         request_messages = [\<lparr>message_role = User, message_content = ''Hi''\<rparr>],
         request_maxTokens = None, request_temperature = None, request_stream = None\<rparr>)
     = Inr \<lparr>reply_status = 200, reply_statusText = ''OK'',
       reply_body = Some [''{\"promptFeedback\":{\"blockReason\":\"SAFETY\"}}'']\<rparr>
   \<and> reply_status \<lparr>reply_status = 200, reply_statusText = ''OK'',
       reply_body = Some [''{\"promptFeedback\":{\"blockReason\":\"SAFETY\"}}'']\<rparr> = 200
   \<and> json_parse (reply_text \<lparr>reply_status = 200, reply_statusText = ''OK'',
       reply_body = Some [''{\"promptFeedback\":{\"blockReason\":\"SAFETY\"}}'']\<rparr>)
     = Inr (JObj [(''promptFeedback'', JObj [(''blockReason'', JStr ''SAFETY'')])])
   \<and> opt_prop (own_prop (JObj [(''promptFeedback'', JObj [(''blockReason'', JStr ''SAFETY'')])])
        ''promptFeedback'') ''blockReason'' = Some (JStr ''SAFETY'')
   \<and> truthy (JStr ''SAFETY'')
   \<and> google_chat json_parse
       (answering \<lparr>reply_status = 200, reply_statusText = ''OK'',
          reply_body = Some [''{\"promptFeedback\":{\"blockReason\":\"SAFETY\"}}'']\<rparr>)
       (new_GoogleAIProvider ''key'')
       \<lparr>request_model = ''gemini-2.0-flash'',
        request_messages = [\<lparr>message_role = User, message_content = ''Hi''\<rparr>],
        request_maxTokens = None, request_temperature = None, request_stream = None\<rparr>
     = Inl (Raised [Lit ''Content blocked: '', Val (JStr ''SAFETY'')])"
proof -
  let ?r = "\<lparr>reply_status = 200, reply_statusText = ''OK'',
       reply_body = Some [''{\"promptFeedback\":{\"blockReason\":\"SAFETY\"}}'']\<rparr>"
  let ?p = "new_GoogleAIProvider ''key''"
  let ?q = "\<lparr>request_model = ''gemini-2.0-flash'',
         request_messages = [\<lparr>message_role = User, message_content = ''Hi''\<rparr>],
         request_maxTokens = None, request_temperature = None, request_stream = None\<rparr>"
  let ?data = "JObj [(''promptFeedback'', JObj [(''blockReason'', JStr ''SAFETY'')])]"
  have 1: "answering ?r (google_chat_request ?p ?q) = Inr ?r" by (simp add: answering_def)
  have 2: "reply_status ?r = 200" by simp
  have 3: "json_parse (reply_text ?r) = Inr ?data" by code_simp
  have 4: "opt_prop (own_prop ?data ''promptFeedback'') ''blockReason'' = Some (JStr ''SAFETY'')"
    by (simp add: opt_prop_def)
  have 5: "truthy (JStr ''SAFETY'')" by simp
  note T = google_chat_blocked [of "answering ?r" ?p ?q ?r json_parse ?data "JStr ''SAFETY''",
      OF 1 2 3 4 5]
  from T 1 2 3 4 5 show ?thesis by (intro conjI)
qed

lemma openrouter_chat_ok:
  assumes "net (openrouter_chat_request p request False) = Inr r" and "reply_status r < 400"
    and "parse (reply_text r) = Inr data" and "first_choice_content data = Inr c"
  shows "openrouter_chat parse net p request
       = Inr \<lparr>response_text = c, response_usage = openai_usage data\<rparr>"
  using assms
  by (simp add: openrouter_chat_def and_then_def host_def requestUrl_def reply_json_def)

lemma stripThinkingBlocks_empty: "stripThinkingBlocks (Some (JStr [])) = Inr (Some (JStr []))"
  by (simp add: stripThinkingBlocks_def trim_def)

lemma minimax_chat_ok_empty:
  assumes "net (minimax_chat_request p request False) = Inr r" and "reply_status r < 400"
    and "parse (reply_text r) = Inr data" and "first_choice_content data = Inr (Some (JStr []))"
  shows "minimax_chat parse net p request
       = Inr \<lparr>response_text = Some (JStr []), response_usage = openai_usage data\<rparr>"
  using assms
  by (simp add: minimax_chat_def and_then_def host_def requestUrl_def reply_json_def
      stripThinkingBlocks_empty)

lemma ollama_chat_ok:
  assumes "net (ollama_chat_request p request False) = Inr r" and "reply_status r < 400"
    and "parse (reply_text r) = Inr data" and "data \<noteq> JNull"
    and "strict_prop (own_prop data ''message'') ''content'' = Inr c"
  shows "\<exists>u. ollama_chat parse net p request = Inr \<lparr>response_text = c, response_usage = u\<rparr>"
  using assms
  by (simp add: ollama_chat_def and_then_def host_def requestUrl_def reply_json_def get_prop_def)

lemma compat_chat_ok:
  assumes "net (compat_chat_request p request False) = Inr r" and "reply_status r < 400"
    and "parse (reply_text r) = Inr data" and "data \<noteq> JNull"
  shows "truthy_opt (own_prop data ''error'') \<longrightarrow>
           (\<exists>parts. compat_chat parse net p request = Inl (Raised parts))"
    and "\<not> truthy_opt (own_prop data ''error'') \<longrightarrow>
           compat_chat parse net p request
             = Inr \<lparr>response_text = Some (or_empty (opt_prop (opt_prop (opt_at0
                        (own_prop data ''choices'')) ''message'') ''content'')),
                    response_usage = openai_usage data\<rparr>"
  using assms
  by (auto simp: compat_chat_def and_then_def host_def requestUrl_def reply_json_def get_prop_def
      truthy_opt_def split: option.splits)

text \<open>
  C8 says that \<^verbatim>\<open>chat\<close> never returns a response with an empty text on a path without
  error. The OpenAI-compatible adapter does: on a reply with status 200 whose first choice
  has the empty string as content it returns the text \<^verbatim>\<open>''\<close>.
\<close>

theorem compat_chat_empty_text:
  "compat_chat json_parse
     (answering \<lparr>reply_status = 200, reply_statusText = ''OK'',
        reply_body = Some [''{\"choices\":[{\"message\":{\"role\":\"assistant\",\"content\":\"\"}}]}'']\<rparr>)
     (new_OpenAICompatibleProvider ''http://localhost:1234/v1'' [] ''local-model'')
     \<lparr>request_model = ''local-model'',
      request_messages = [\<lparr>message_role = User, message_content = ''Hi''\<rparr>],
      request_maxTokens = None, request_temperature = None, request_stream = None\<rparr>
   = Inr \<lparr>response_text = Some (JStr []), response_usage = None\<rparr>"
  by code_simp

text \<open>
  C8, as the code has it. On a reply with status 200 whose body parses to a value other
  than \<^verbatim>\<open>null\<close>: the adapters for OpenRouter, MiniMax and Ollama return an empty content
  as it is, as a response with an empty text; the OpenAI-compatible adapter raises when the
  body carries a truthy \<^verbatim>\<open>error\<close> and otherwise returns the text, empty when the body has
  no content; the Google AI adapter raises on a truthy \<^verbatim>\<open>promptFeedback.blockReason\<close>,
  raises when the text is empty and \<^verbatim>\<open>candidates[0].finishReason\<close> is truthy, and otherwise
  returns the text, empty when the body has none.
\<close>

theorem chat_empty_completion:
  assumes "reply_status r = 200" and "parse (reply_text r) = Inr data" and "data \<noteq> JNull"
    and "net (openrouter_chat_request p1 request False) = Inr r"
    and "net (google_chat_request p2 request) = Inr r"
    and "net (ollama_chat_request p3 request False) = Inr r"
    and "net (minimax_chat_request p4 request False) = Inr r"
    and "net (compat_chat_request p5 request False) = Inr r"
  shows
    "(first_choice_content data = Inr (Some (JStr [])) \<longrightarrow>
        (\<exists>u. openrouter_chat parse net p1 request
               = Inr \<lparr>response_text = Some (JStr []), response_usage = u\<rparr>)
      \<and> (\<exists>u. minimax_chat parse net p4 request
               = Inr \<lparr>response_text = Some (JStr []), response_usage = u\<rparr>))
     \<and> (strict_prop (own_prop data ''message'') ''content'' = Inr (Some (JStr [])) \<longrightarrow>
        (\<exists>u. ollama_chat parse net p3 request
               = Inr \<lparr>response_text = Some (JStr []), response_usage = u\<rparr>))
     \<and> (truthy_opt (own_prop data ''error'') \<longrightarrow>
        (\<exists>parts. compat_chat parse net p5 request = Inl (Raised parts)))
     \<and> (\<not> truthy_opt (own_prop data ''error'')
        \<and> \<not> truthy_opt (opt_prop (opt_prop (opt_at0 (own_prop data ''choices'')) ''message'')
                           ''content'') \<longrightarrow>
        (\<exists>u. compat_chat parse net p5 request
               = Inr \<lparr>response_text = Some (JStr []), response_usage = u\<rparr>))
     \<and> (truthy_opt (opt_prop (own_prop data ''promptFeedback'') ''blockReason'') \<longrightarrow>
        google_chat parse net p2 request
          = Inl (Raised [Lit ''Content blocked: '',
                         Val (or_empty (opt_prop (own_prop data ''promptFeedback'')
                                ''blockReason''))]))
     \<and> (\<not> truthy_opt (opt_prop (own_prop data ''promptFeedback'') ''blockReason'')
        \<and> \<not> truthy_opt (opt_prop (opt_at0 (opt_prop (opt_prop (opt_at0
                   (own_prop data ''candidates'')) ''content'') ''parts'')) ''text'')
        \<and> truthy_opt (opt_prop (opt_at0 (own_prop data ''candidates'')) ''finishReason'') \<longrightarrow>
        google_chat parse net p2 request
          = Inl (Raised [Lit ''No response. Reason: '',
                         Val (or_empty (opt_prop (opt_at0 (own_prop data ''candidates''))
                                ''finishReason''))]))
     \<and> (\<not> truthy_opt (opt_prop (own_prop data ''promptFeedback'') ''blockReason'')
        \<and> \<not> truthy_opt (opt_prop (opt_at0 (opt_prop (opt_prop (opt_at0
                   (own_prop data ''candidates'')) ''content'') ''parts'')) ''text'')
        \<and> \<not> truthy_opt (opt_prop (opt_at0 (own_prop data ''candidates'')) ''finishReason'') \<longrightarrow>
        (\<exists>u. google_chat parse net p2 request
               = Inr \<lparr>response_text = Some (JStr []), response_usage = u\<rparr>))"
proof -
  from assms(1) have s: "reply_status r < 400" by simp
  have a: "first_choice_content data = Inr (Some (JStr [])) \<longrightarrow>
        (\<exists>u. openrouter_chat parse net p1 request
               = Inr \<lparr>response_text = Some (JStr []), response_usage = u\<rparr>)
      \<and> (\<exists>u. minimax_chat parse net p4 request
               = Inr \<lparr>response_text = Some (JStr []), response_usage = u\<rparr>)"
    using openrouter_chat_ok [of net p1 request r parse data "Some (JStr [])"]
      minimax_chat_ok_empty [of net p4 request r parse data] assms(2,4,7) s
    by blast
  have b: "strict_prop (own_prop data ''message'') ''content'' = Inr (Some (JStr [])) \<longrightarrow>
        (\<exists>u. ollama_chat parse net p3 request
               = Inr \<lparr>response_text = Some (JStr []), response_usage = u\<rparr>)"
    using ollama_chat_ok [of net p3 request r parse data "Some (JStr [])"] assms(2,3,6) s
    by blast
  have c: "truthy_opt (own_prop data ''error'') \<longrightarrow>
        (\<exists>parts. compat_chat parse net p5 request = Inl (Raised parts))"
    using compat_chat_ok(1) [of net p5 request r parse data] assms(2,3,8) s by blast
  have d: "\<not> truthy_opt (own_prop data ''error'')
        \<and> \<not> truthy_opt (opt_prop (opt_prop (opt_at0 (own_prop data ''choices'')) ''message'')
                           ''content'') \<longrightarrow>
        (\<exists>u. compat_chat parse net p5 request
               = Inr \<lparr>response_text = Some (JStr []), response_usage = u\<rparr>)"
    using compat_chat_ok(2) [of net p5 request r parse data] assms(2,3,8) s
    by (auto simp: or_empty_falsy)
  note g = google_chat_ok [of net p2 request r parse data, OF assms(5) assms(1) assms(2) assms(3)]
  have e: "truthy_opt (opt_prop (own_prop data ''promptFeedback'') ''blockReason'') \<longrightarrow>
        google_chat parse net p2 request
          = Inl (Raised [Lit ''Content blocked: '',
                         Val (or_empty (opt_prop (own_prop data ''promptFeedback'')
                                ''blockReason''))])"
    unfolding g by simp
  have f: "\<not> truthy_opt (opt_prop (own_prop data ''promptFeedback'') ''blockReason'')
        \<and> \<not> truthy_opt (opt_prop (opt_at0 (opt_prop (opt_prop (opt_at0
                   (own_prop data ''candidates'')) ''content'') ''parts'')) ''text'')
        \<and> truthy_opt (opt_prop (opt_at0 (own_prop data ''candidates'')) ''finishReason'') \<longrightarrow>
        google_chat parse net p2 request
          = Inl (Raised [Lit ''No response. Reason: '',
                         Val (or_empty (opt_prop (opt_at0 (own_prop data ''candidates''))
                                ''finishReason''))])"
    unfolding g by (simp add: truthy_or_empty)
  have h: "\<not> truthy_opt (opt_prop (own_prop data ''promptFeedback'') ''blockReason'')
        \<and> \<not> truthy_opt (opt_prop (opt_at0 (opt_prop (opt_prop (opt_at0
                   (own_prop data ''candidates'')) ''content'') ''parts'')) ''text'')
        \<and> \<not> truthy_opt (opt_prop (opt_at0 (own_prop data ''candidates'')) ''finishReason'') \<longrightarrow>
        (\<exists>u. google_chat parse net p2 request
               = Inr \<lparr>response_text = Some (JStr []), response_usage = u\<rparr>)"
    unfolding g by (simp add: truthy_or_empty or_empty_falsy)
  from a b c d e f h show ?thesis by (intro conjI)
qed

theorem chat_empty_completion_witness:
  "json_parse (reply_text \<lparr>reply_status = 200, reply_statusText = ''OK'',
          reply_body = Some [''{\"choices\":[{\"message\":{\"role\":\"assistant\",\"content\":\"\"}}]}'']\<rparr>)
     = Inr (JObj [(''choices'', JArr [JObj [(''message'',
          JObj [(''role'', JStr ''assistant''), (''content'', JStr [])])]])])
   \<and> first_choice_content
        (JObj [(''choices'', JArr [JObj [(''message'',
          JObj [(''role'', JStr ''assistant''), (''content'', JStr [])])]])])
     = Inr (Some (JStr []))
   \<and> \<not> truthy_opt (own_prop
        (JObj [(''choices'', JArr [JObj [(''message'',
          JObj [(''role'', JStr ''assistant''), (''content'', JStr [])])]])]) ''error'')
   \<and> \<not> truthy_opt (opt_prop (opt_prop (opt_at0 (own_prop
        (JObj [(''choices'', JArr [JObj [(''message'',
          JObj [(''role'', JStr ''assistant''), (''content'', JStr [])])]])]) ''choices'')) ''message'') ''content'')
   \<and> \<not> truthy_opt (opt_prop (own_prop
        (JObj [(''choices'', JArr [JObj [(''message'',
          JObj [(''role'', JStr ''assistant''), (''content'', JStr [])])]])]) ''promptFeedback'') ''blockReason'')
   \<and> \<not> truthy_opt (opt_prop (opt_at0 (opt_prop (opt_prop (opt_at0 (own_prop
        (JObj [(''choices'', JArr [JObj [(''message'',
          JObj [(''role'', JStr ''assistant''), (''content'', JStr [])])]])]) ''candidates'')) ''content'') ''parts'')) ''text'')
   \<and> \<not> truthy_opt (opt_prop (opt_at0 (own_prop
        (JObj [(''choices'', JArr [JObj [(''message'',
          JObj [(''role'', JStr ''assistant''), (''content'', JStr [])])]])]) ''candidates'')) ''finishReason'')
   \<and> (\<exists>u. openrouter_chat json_parse
        (answering \<lparr>reply_status = 200, reply_statusText = ''OK'',
          reply_body = Some [''{\"choices\":[{\"message\":{\"role\":\"assistant\",\"content\":\"\"}}]}'']\<rparr>)
        (new_OpenRouterProvider ''key'' None)
        \<lparr>request_model = ''m'',
        request_messages = [\<lparr>message_role = User, message_content = ''Hi''\<rparr>],
        request_maxTokens = None, request_temperature = None, request_stream = None\<rparr>
      = Inr \<lparr>response_text = Some (JStr []), response_usage = u\<rparr>)
   \<and> (\<exists>u. minimax_chat json_parse
        (answering \<lparr>reply_status = 200, reply_statusText = ''OK'',
          reply_body = Some [''{\"choices\":[{\"message\":{\"role\":\"assistant\",\"content\":\"\"}}]}'']\<rparr>)
        (new_MinimaxProvider ''key'' (Some International) (Some False))
        \<lparr>request_model = ''m'',
        request_messages = [\<lparr>message_role = User, message_content = ''Hi''\<rparr>],
        request_maxTokens = None, request_temperature = None, request_stream = None\<rparr>
      = Inr \<lparr>response_text = Some (JStr []), response_usage = u\<rparr>)
   \<and> (\<exists>u. compat_chat json_parse
        (answering \<lparr>reply_status = 200, reply_statusText = ''OK'',
          reply_body = Some [''{\"choices\":[{\"message\":{\"role\":\"assistant\",\"content\":\"\"}}]}'']\<rparr>)
        (new_OpenAICompatibleProvider ''http://localhost:1234/v1'' [] ''m'')
        \<lparr>request_model = ''m'',
        request_messages = [\<lparr>message_role = User, message_content = ''Hi''\<rparr>],
        request_maxTokens = None, request_temperature = None, request_stream = None\<rparr>
      = Inr \<lparr>response_text = Some (JStr []), response_usage = u\<rparr>)
   \<and> (\<exists>u. google_chat json_parse
        (answering \<lparr>reply_status = 200, reply_statusText = ''OK'',
          reply_body = Some [''{\"choices\":[{\"message\":{\"role\":\"assistant\",\"content\":\"\"}}]}'']\<rparr>)
        (new_GoogleAIProvider ''key'')
        \<lparr>request_model = ''m'',
        request_messages = [\<lparr>message_role = User, message_content = ''Hi''\<rparr>],
        request_maxTokens = None, request_temperature = None, request_stream = None\<rparr>
      = Inr \<lparr>response_text = Some (JStr []), response_usage = u\<rparr>)
   \<and> json_parse (reply_text \<lparr>reply_status = 200, reply_statusText = ''OK'',
          reply_body = Some [''{\"message\":{\"role\":\"assistant\",\"content\":\"\"},\"done\":true}'']\<rparr>)
     = Inr (JObj [(''message'', JObj [(''role'', JStr ''assistant''), (''content'', JStr [])]),
          (''done'', JBool True)])
   \<and> strict_prop (own_prop
        (JObj [(''message'', JObj [(''role'', JStr ''assistant''), (''content'', JStr [])]),
          (''done'', JBool True)]) ''message'') ''content''
     = Inr (Some (JStr []))
   \<and> (\<exists>u. ollama_chat json_parse
        (answering \<lparr>reply_status = 200, reply_statusText = ''OK'',
          reply_body = Some [''{\"message\":{\"role\":\"assistant\",\"content\":\"\"},\"done\":true}'']\<rparr>)
        (new_OllamaProvider (Some ''http://localhost:11434''))
        \<lparr>request_model = ''m'',
        request_messages = [\<lparr>message_role = User, message_content = ''Hi''\<rparr>],
        request_maxTokens = None, request_temperature = None, request_stream = None\<rparr>
      = Inr \<lparr>response_text = Some (JStr []), response_usage = u\<rparr>)
   \<and> json_parse (reply_text \<lparr>reply_status = 200, reply_statusText = ''OK'',
          reply_body = Some [''{\"candidates\":[{\"finishReason\":\"SAFETY\"}]}'']\<rparr>)
     = Inr (JObj [(''candidates'', JArr [JObj [(''finishReason'', JStr ''SAFETY'')]])])
   \<and> truthy_opt (opt_prop (opt_at0 (own_prop
        (JObj [(''candidates'', JArr [JObj [(''finishReason'', JStr ''SAFETY'')]])]) ''candidates'')) ''finishReason'')
   \<and> google_chat json_parse
        (answering \<lparr>reply_status = 200, reply_statusText = ''OK'',
          reply_body = Some [''{\"candidates\":[{\"finishReason\":\"SAFETY\"}]}'']\<rparr>)
        (new_GoogleAIProvider ''key'')
        \<lparr>request_model = ''m'',
        request_messages = [\<lparr>message_role = User, message_content = ''Hi''\<rparr>],
        request_maxTokens = None, request_temperature = None, request_stream = None\<rparr>
     = Inl (Raised [Lit ''No response. Reason: '', Val (JStr ''SAFETY'')])
   \<and> json_parse (reply_text \<lparr>reply_status = 200, reply_statusText = ''OK'',
          reply_body = Some [''{\"error\":{\"message\":\"model overloaded\"}}'']\<rparr>)
     = Inr (JObj [(''error'', JObj [(''message'', JStr ''model overloaded'')])])
   \<and> truthy_opt (own_prop
        (JObj [(''error'', JObj [(''message'', JStr ''model overloaded'')])]) ''error'')
   \<and> (\<exists>parts. compat_chat json_parse
        (answering \<lparr>reply_status = 200, reply_statusText = ''OK'',
          reply_body = Some [''{\"error\":{\"message\":\"model overloaded\"}}'']\<rparr>)
        (new_OpenAICompatibleProvider ''http://localhost:1234/v1'' [] ''m'')
        \<lparr>request_model = ''m'',
        request_messages = [\<lparr>message_role = User, message_content = ''Hi''\<rparr>],
        request_maxTokens = None, request_temperature = None, request_stream = None\<rparr>
      = Inl (Raised parts))
   \<and> json_parse (reply_text \<lparr>reply_status = 200, reply_statusText = ''OK'',
          reply_body = Some [''{\"promptFeedback\":{\"blockReason\":\"SAFETY\"}}'']\<rparr>)
     = Inr (JObj [(''promptFeedback'', JObj [(''blockReason'', JStr ''SAFETY'')])])
   \<and> truthy_opt (opt_prop (own_prop
        (JObj [(''promptFeedback'', JObj [(''blockReason'', JStr ''SAFETY'')])]) ''promptFeedback'') ''blockReason'')
   \<and> google_chat json_parse
        (answering \<lparr>reply_status = 200, reply_statusText = ''OK'',
          reply_body = Some [''{\"promptFeedback\":{\"blockReason\":\"SAFETY\"}}'']\<rparr>)
        (new_GoogleAIProvider ''key'')
        \<lparr>request_model = ''m'',
        request_messages = [\<lparr>message_role = User, message_content = ''Hi''\<rparr>],
        request_maxTokens = None, request_temperature = None, request_stream = None\<rparr>
     = Inl (Raised [Lit ''Content blocked: '', Val (JStr ''SAFETY'')])"
proof -
  let ?q = "\<lparr>request_model = ''m'',
      request_messages = [\<lparr>message_role = User, message_content = ''Hi''\<rparr>],
      request_maxTokens = None, request_temperature = None, request_stream = None\<rparr>"
  let ?r1 = "\<lparr>reply_status = 200, reply_statusText = ''OK'',
          reply_body = Some [''{\"choices\":[{\"message\":{\"role\":\"assistant\",\"content\":\"\"}}]}'']\<rparr>"
  let ?d1 = "JObj [(''choices'', JArr [JObj [(''message'',
          JObj [(''role'', JStr ''assistant''), (''content'', JStr [])])]])]"
  let ?r2 = "\<lparr>reply_status = 200, reply_statusText = ''OK'',
          reply_body = Some [''{\"message\":{\"role\":\"assistant\",\"content\":\"\"},\"done\":true}'']\<rparr>"
  let ?d2 = "JObj [(''message'', JObj [(''role'', JStr ''assistant''), (''content'', JStr [])]),
          (''done'', JBool True)]"
  let ?r3 = "\<lparr>reply_status = 200, reply_statusText = ''OK'',
          reply_body = Some [''{\"candidates\":[{\"finishReason\":\"SAFETY\"}]}'']\<rparr>"
  let ?d3 = "JObj [(''candidates'', JArr [JObj [(''finishReason'', JStr ''SAFETY'')]])]"
  let ?r4 = "\<lparr>reply_status = 200, reply_statusText = ''OK'',
          reply_body = Some [''{\"error\":{\"message\":\"model overloaded\"}}'']\<rparr>"
  let ?d4 = "JObj [(''error'', JObj [(''message'', JStr ''model overloaded'')])]"
  let ?r5 = "\<lparr>reply_status = 200, reply_statusText = ''OK'',
          reply_body = Some [''{\"promptFeedback\":{\"blockReason\":\"SAFETY\"}}'']\<rparr>"
  let ?d5 = "JObj [(''promptFeedback'', JObj [(''blockReason'', JStr ''SAFETY'')])]"
  let ?p1 = "new_OpenRouterProvider ''key'' None"
  let ?p2 = "new_GoogleAIProvider ''key''"
  let ?p3 = "new_OllamaProvider (Some ''http://localhost:11434'')"
  let ?p4 = "new_MinimaxProvider ''key'' (Some International) (Some False)"
  let ?p5 = "new_OpenAICompatibleProvider ''http://localhost:1234/v1'' [] ''m''"
  have a: "answering r x = Inr r" for r x by (simp add: answering_def)
  have s: "reply_status ?r1 = 200" "reply_status ?r2 = 200" "reply_status ?r3 = 200"
    "reply_status ?r4 = 200" "reply_status ?r5 = 200" by simp_all
  have j1: "json_parse (reply_text ?r1) = Inr ?d1" by code_simp
  have j2: "json_parse (reply_text ?r2) = Inr ?d2" by code_simp
  have j3: "json_parse (reply_text ?r3) = Inr ?d3" by code_simp
  have j4: "json_parse (reply_text ?r4) = Inr ?d4" by code_simp
  have j5: "json_parse (reply_text ?r5) = Inr ?d5" by code_simp
  have n: "?d1 \<noteq> JNull" "?d2 \<noteq> JNull" "?d3 \<noteq> JNull" "?d4 \<noteq> JNull" "?d5 \<noteq> JNull"
    by simp_all
  note T1 = chat_empty_completion [of ?r1 json_parse ?d1 "answering ?r1" ?p1 ?q ?p2 ?p3 ?p4 ?p5,
      OF s(1) j1 n(1) a a a a a]
  note T2 = chat_empty_completion [of ?r2 json_parse ?d2 "answering ?r2" ?p1 ?q ?p2 ?p3 ?p4 ?p5,
      OF s(2) j2 n(2) a a a a a]
  note T3 = chat_empty_completion [of ?r3 json_parse ?d3 "answering ?r3" ?p1 ?q ?p2 ?p3 ?p4 ?p5,
      OF s(3) j3 n(3) a a a a a]
  note T4 = chat_empty_completion [of ?r4 json_parse ?d4 "answering ?r4" ?p1 ?q ?p2 ?p3 ?p4 ?p5,
      OF s(4) j4 n(4) a a a a a]
  note T5 = chat_empty_completion [of ?r5 json_parse ?d5 "answering ?r5" ?p1 ?q ?p2 ?p3 ?p4 ?p5,
      OF s(5) j5 n(5) a a a a a]
  have h1: "first_choice_content ?d1 = Inr (Some (JStr []))"
    by (simp add: first_choice_content_def and_then_def get_prop_def strict_at0_def
        strict_prop_def at0_def)
  have h2: "\<not> truthy_opt (own_prop ?d1 ''error'')" by (simp add: truthy_opt_def)
  have h3: "\<not> truthy_opt (opt_prop (opt_prop (opt_at0 (own_prop ?d1 ''choices'')) ''message'') ''content'')"
    by (simp add: truthy_opt_def opt_prop_def opt_at0_def)
  have h4: "\<not> truthy_opt (opt_prop (own_prop ?d1 ''promptFeedback'') ''blockReason'')"
    by (simp add: truthy_opt_def opt_prop_def)
  have h5: "\<not> truthy_opt (opt_prop (opt_at0 (opt_prop (opt_prop (opt_at0 (own_prop ?d1 ''candidates'')) ''content'') ''parts'')) ''text'')"
    by (simp add: truthy_opt_def opt_prop_def opt_at0_def)
  have h6: "\<not> truthy_opt (opt_prop (opt_at0 (own_prop ?d1 ''candidates'')) ''finishReason'')"
    by (simp add: truthy_opt_def opt_prop_def opt_at0_def)
  have h7: "strict_prop (own_prop ?d2 ''message'') ''content'' = Inr (Some (JStr []))"
    by (simp add: strict_prop_def get_prop_def)
  have h8: "truthy_opt (opt_prop (opt_at0 (own_prop ?d3 ''candidates'')) ''finishReason'')"
    by (simp add: truthy_opt_def opt_prop_def opt_at0_def)
  have h8a: "\<not> truthy_opt (opt_prop (own_prop ?d3 ''promptFeedback'') ''blockReason'')" by (simp add: truthy_opt_def opt_prop_def)
  have h8b: "\<not> truthy_opt (opt_prop (opt_at0 (opt_prop (opt_prop (opt_at0 (own_prop ?d3 ''candidates'')) ''content'') ''parts'')) ''text'')" by (simp add: truthy_opt_def opt_prop_def opt_at0_def)
  have h9: "truthy_opt (own_prop ?d4 ''error'')" by (simp add: truthy_opt_def)
  have h10: "truthy_opt (opt_prop (own_prop ?d5 ''promptFeedback'') ''blockReason'')" by (simp add: truthy_opt_def opt_prop_def)
  note c1 = T1 [THEN conjunct1, THEN mp, OF h1]
  note c2 = T1 [THEN conjunct2, THEN conjunct2, THEN conjunct2, THEN conjunct1, THEN mp,
      OF conjI [OF h2 h3]]
  note c3 = T1 [THEN conjunct2, THEN conjunct2, THEN conjunct2, THEN conjunct2, THEN conjunct2,
      THEN conjunct2, THEN mp, OF conjI [OF h4 conjI [OF h5 h6]]]
  note c4 = T2 [THEN conjunct2, THEN conjunct1, THEN mp, OF h7]
  have c5: "google_chat json_parse (answering ?r3) ?p2 ?q
      = Inl (Raised [Lit ''No response. Reason: '', Val (JStr ''SAFETY'')])"
    using T3 [THEN conjunct2, THEN conjunct2, THEN conjunct2, THEN conjunct2, THEN conjunct2,
      THEN conjunct1, THEN mp, OF conjI [OF h8a conjI [OF h8b h8]]]
    by (simp add: or_empty_def opt_prop_def opt_at0_def)
  note c6 = T4 [THEN conjunct2, THEN conjunct2, THEN conjunct1, THEN mp, OF h9]
  have c7: "google_chat json_parse (answering ?r5) ?p2 ?q
      = Inl (Raised [Lit ''Content blocked: '', Val (JStr ''SAFETY'')])"
    using T5 [THEN conjunct2, THEN conjunct2, THEN conjunct2, THEN conjunct2, THEN conjunct1,
      THEN mp, OF h10]
    by (simp add: or_empty_def opt_prop_def)
  from j1 h1 h2 h3 h4 h5 h6 c1 [THEN conjunct1] c1 [THEN conjunct2] c2 c3 j2 h7 c4 j3 h8 c5
    j4 h9 c6 j5 h10 c7
  show ?thesis by (intro conjI)
qed

section \<open>Registry: properties\<close>

lemma registry_inv_new: "registry_inv new_registry"
  by (simp add: registry_inv_def new_registry_def)

lemma registry_inv_clear: "registry_inv (clear r)"
  by (simp add: registry_inv_def clear_def)

lemma list_all_update:
  "list_all P al \<Longrightarrow> P (k, v) \<Longrightarrow> list_all P (AList.update k v al)"
  by (induction al) (auto simp: list_all_iff)

lemma registry_inv_register: "registry_inv r \<Longrightarrow> registry_inv (register p r)"
  unfolding registry_inv_def register_def
  by (simp add: distinct_update list_all_update)

lemma get_register_same: "get (register p r) (provider_id p) = Some p"
  by (simp add: get_def register_def update_conv')

lemma get_register_other: "i \<noteq> provider_id p \<Longrightarrow> get (register p r) i = get r i"
  by (simp add: get_def register_def update_conv')

lemma listed_iff_get:
  assumes "registry_inv r"
  shows "q \<in> set (list_providers r) \<longleftrightarrow> get r (provider_id q) = Some q"
proof
  assume "q \<in> set (list_providers r)"
  then obtain k where kq: "(k, q) \<in> set r"
    by (auto simp: list_providers_def)
  with assms have "k = provider_id q"
    by (auto simp: registry_inv_def list_all_iff)
  with kq assms show "get r (provider_id q) = Some q"
    by (simp add: get_def registry_inv_def)
next
  assume "get r (provider_id q) = Some q"
  then have "(provider_id q, q) \<in> set r"
    by (simp add: get_def map_of_SomeD)
  then show "q \<in> set (list_providers r)"
    by (force simp: list_providers_def)
qed

lemma filter_key_unique:
  "distinct (map f xs) \<Longrightarrow> p \<in> set xs \<Longrightarrow> filter (\<lambda>q. f q = f p) xs = [p]"
proof (induction xs)
  case Nil
  then show ?case by simp
next
  case (Cons x xs)
  show ?case
  proof (cases "x = p")
    case True
    from Cons.prems(1) have "f x \<notin> f ` set xs" by simp
    with True have "\<forall>q\<in>set xs. f q \<noteq> f p" by (metis imageI)
    then have "filter (\<lambda>q. f q = f p) xs = []" by (simp add: filter_empty_conv)
    with True show ?thesis by simp
  next
    case False
    from Cons.prems(1) have "f x \<notin> f ` set xs" by simp
    moreover from False Cons.prems(2) have "p \<in> set xs" by simp
    ultimately have "f x \<noteq> f p" by (metis imageI)
    with Cons \<open>p \<in> set xs\<close> show ?thesis by simp
  qed
qed

text \<open>
  C9. Registering \<open>p1\<close> and then \<open>p2\<close> under the same identifier leaves \<open>p2\<close>, and
  only \<open>p2\<close>, resolvable under that identifier: \<open>get\<close> returns it, and it is the one
  listed provider with that identifier. After \<open>clear\<close>, \<open>get\<close> returns the not-found
  value for every identifier, the previously registered ones included; \<open>get\<close> has no
  failing branch at all.
\<close>

theorem registry_replace_and_clear:
  assumes "provider_id p1 = provider_id p2" and "registry_inv r"
  shows "get (register p2 (register p1 r)) (provider_id p2) = Some p2
       \<and> filter (\<lambda>q. provider_id q = provider_id p2)
            (list_providers (register p2 (register p1 r))) = [p2]
       \<and> (\<forall>i. get (clear (register p2 (register p1 r))) i = None)"
proof -
  let ?r = "register p2 (register p1 r)"
  have inv: "registry_inv ?r"
    using assms(2) by (simp add: registry_inv_register)
  have g: "get ?r (provider_id p2) = Some p2"
    by (rule get_register_same)
  have m: "map provider_id (list_providers ?r) = map fst ?r"
    using inv unfolding registry_inv_def list_providers_def
    by (auto simp: list_all_iff)
  have d: "distinct (map provider_id (list_providers ?r))"
    using inv unfolding m by (simp add: registry_inv_def)
  have "p2 \<in> set (list_providers ?r)"
    using listed_iff_get [OF inv] g by simp
  with d have f: "filter (\<lambda>q. provider_id q = provider_id p2) (list_providers ?r) = [p2]"
    by (rule filter_key_unique)
  have c: "\<forall>i. get (clear ?r) i = None"
    by (simp add: get_def clear_def)
  from g f c show ?thesis by blast
qed

theorem registry_replace_and_clear_witness:
  "provider_id \<lparr>provider_id = ''minimax'', provider_name = ''MiniMax''\<rparr>
     = provider_id \<lparr>provider_id = ''minimax'', provider_name = ''MiniMax (China)''\<rparr>
   \<and> registry_inv (new_registry :: unit provider_registry)
   \<and> get (register \<lparr>provider_id = ''minimax'', provider_name = ''MiniMax (China)''\<rparr>
          (register \<lparr>provider_id = ''minimax'', provider_name = ''MiniMax''\<rparr> new_registry))
        ''minimax''
       = Some \<lparr>provider_id = ''minimax'', provider_name = ''MiniMax (China)''\<rparr>
   \<and> list_providers (register \<lparr>provider_id = ''minimax'', provider_name = ''MiniMax (China)''\<rparr>
          (register \<lparr>provider_id = ''minimax'', provider_name = ''MiniMax''\<rparr> new_registry))
       = [\<lparr>provider_id = ''minimax'', provider_name = ''MiniMax (China)''\<rparr>]
   \<and> get (clear (register \<lparr>provider_id = ''minimax'', provider_name = ''MiniMax (China)''\<rparr>
          (register \<lparr>provider_id = ''minimax'', provider_name = ''MiniMax''\<rparr> new_registry)))
        ''minimax'' = None"
proof -
  let ?p1 = "\<lparr>provider_id = ''minimax'', provider_name = ''MiniMax''\<rparr>"
  let ?p2 = "\<lparr>provider_id = ''minimax'', provider_name = ''MiniMax (China)''\<rparr>"
  have i: "provider_id ?p1 = provider_id ?p2" by simp
  have n: "registry_inv (new_registry :: unit provider_registry)"
    by (simp add: registry_inv_def new_registry_def)
  have l: "list_providers (register ?p2 (register ?p1 new_registry)) = [?p2]"
    by (simp add: list_providers_def register_def new_registry_def)
  from registry_replace_and_clear [OF i n] i n l show ?thesis by simp
qed

end
